theory Spec2Isabelle
  imports Complex_Main "HOL-Library.AList"
begin

section \<open>Data model (shared/schema.ts)\<close>

text \<open>
  Identifiers are JavaScript numbers holding integers; they are modelled as \<open>int\<close>.
  Timestamps (\<open>Date\<close> objects, serialised on storage) are milliseconds as \<open>int\<close>.
  Strings are lists of characters; the model covers ASCII text, which is where
  \<open>toLowerCase\<close>, \<open>trim\<close> and the regular expressions of the sources act
  characterwise as written below.
\<close>

record Tag =
  tag_id :: int
  name :: string
  color :: string

text \<open>
  \<open>Note\<close> has the seven columns of the \<open>notes\<close> table. The objects that travel through
  the client are JavaScript objects: an object spread of a \<open>NoteWithTags\<close> keeps its
  \<open>tags\<close> property and a spread of a request keeps its \<open>tagIds\<close> property, also
  where the variable is typed \<open>Note\<close>. Both properties are therefore part of the record,
  \<open>None\<close> when the object does not have them. \<open>NoteWithTags\<close> is a note whose \<open>tags\<close>
  property is present.
\<close>

record Note =
  note_id :: int
  title :: string
  content :: string
  isFavorite :: bool
  isDeleted :: bool
  createdAt :: int
  updatedAt :: int
  tags :: "Tag list option"
  tagIds :: "int list option"

text \<open>\<open>interface NoteTag\<close> of offlineStorage.ts.\<close>

record NoteTag =
  noteId :: int
  tagId :: int

text \<open>
  \<open>Partial<InsertNote> & { tagIds?: number[] }\<close>: every property may be absent.
  (A property that is present with the value \<open>undefined\<close> is not modelled.)
\<close>

record partial_note =
  p_title :: "string option"
  p_content :: "string option"
  p_isFavorite :: "bool option"
  p_isDeleted :: "bool option"
  p_tagIds :: "int list option"

datatype error = Error string

section \<open>Local Store (client/src/lib/offlineStorage.ts)\<close>

text \<open>
  The browser's \<open>localStorage\<close>, restricted to the keys the sources use: the three
  offline collections, the last sync time, and the per-user snapshot that the cloud
  storage shim keeps under \<open>cloudinary_<userId>_notes\<close>. The fields hold the parsed
  values. Writes are taken to succeed (\<open>storeData\<close> swallows a failing \<open>setItem\<close>).
\<close>

record local_storage =
  offline_notes :: "Note list"
  offline_tags :: "Tag list"
  offline_note_tags :: "NoteTag list"
  last_sync :: "int option"
  cloudinary_notes :: "string \<Rightarrow> Note list option"

definition getOfflineNotes :: "local_storage \<Rightarrow> Note list" where
  "getOfflineNotes s = offline_notes s"

definition getOfflineTags :: "local_storage \<Rightarrow> Tag list" where
  "getOfflineTags s = offline_tags s"

definition getOfflineNoteTags :: "local_storage \<Rightarrow> NoteTag list" where
  "getOfflineNoteTags s = offline_note_tags s"

definition storeOfflineNotes :: "Note list \<Rightarrow> local_storage \<Rightarrow> local_storage" where
  "storeOfflineNotes ns s = s\<lparr>offline_notes := ns\<rparr>"

definition storeOfflineTags :: "Tag list \<Rightarrow> local_storage \<Rightarrow> local_storage" where
  "storeOfflineTags ts s = s\<lparr>offline_tags := ts\<rparr>"

definition storeOfflineNoteTags :: "NoteTag list \<Rightarrow> local_storage \<Rightarrow> local_storage" where
  "storeOfflineNoteTags nts s = s\<lparr>offline_note_tags := nts\<rparr>"

text \<open>\<open>Array.prototype.find\<close> and \<open>findIndex\<close> (\<open>-1\<close> when nothing is found).\<close>

fun find_js :: "('a \<Rightarrow> bool) \<Rightarrow> 'a list \<Rightarrow> 'a option" where
  "find_js P [] = None"
| "find_js P (x # xs) = (if P x then Some x else find_js P xs)"

fun findIndex :: "('a \<Rightarrow> bool) \<Rightarrow> 'a list \<Rightarrow> int" where
  "findIndex P [] = - 1"
| "findIndex P (x # xs) =
     (if P x then 0 else (let i = findIndex P xs in if i < 0 then - 1 else i + 1))"

definition getOfflineNoteWithTags :: "int \<Rightarrow> local_storage \<Rightarrow> Note option" where
  "getOfflineNoteWithTags nid s =
     (let notes = getOfflineNotes s;
          tgs = getOfflineTags s;
          noteTags = getOfflineNoteTags s
      in case find_js (\<lambda>n. note_id n = nid) notes of
           None \<Rightarrow> None
         | Some n \<Rightarrow>
             (let noteTagIds = map tagId (filter (\<lambda>nt. noteId nt = nid) noteTags);
                  noteTags' = filter (\<lambda>t. tag_id t \<in> set noteTagIds) tgs
              in Some (n\<lparr>tags := Some noteTags'\<rparr>)))"

definition getOfflineNotesWithTags :: "local_storage \<Rightarrow> Note list" where
  "getOfflineNotesWithTags s =
     (let notes = getOfflineNotes s;
          tgs = getOfflineTags s;
          noteTags = getOfflineNoteTags s
      in map (\<lambda>n.
           (let noteTagIds = map tagId (filter (\<lambda>nt. noteId nt = note_id n) noteTags);
                noteTags' = filter (\<lambda>t. tag_id t \<in> set noteTagIds) tgs
            in n\<lparr>tags := Some noteTags'\<rparr>)) notes)"

text \<open>
  The storage functions below return the new contents of the store; the value the
  source function returns besides (its argument, or \<open>true\<close>) is not used by any caller.
\<close>

definition saveOfflineNote :: "Note \<Rightarrow> local_storage \<Rightarrow> local_storage" where
  "saveOfflineNote n s =
     (let notes = getOfflineNotes s;
          existingNoteIndex = findIndex (\<lambda>m. note_id m = note_id n) notes
      in if existingNoteIndex \<ge> 0
         then storeOfflineNotes (notes[nat existingNoteIndex := n]) s
         else storeOfflineNotes (notes @ [n]) s)"

definition deleteOfflineNote :: "int \<Rightarrow> local_storage \<Rightarrow> local_storage" where
  "deleteOfflineNote nid s =
     (let notes = getOfflineNotes s;
          filteredNotes = filter (\<lambda>n. note_id n \<noteq> nid) notes;
          s1 = storeOfflineNotes filteredNotes s;
          noteTags = getOfflineNoteTags s1;
          filteredNoteTags = filter (\<lambda>nt. noteId nt \<noteq> nid) noteTags
      in storeOfflineNoteTags filteredNoteTags s1)"

definition saveOfflineTag :: "Tag \<Rightarrow> local_storage \<Rightarrow> local_storage" where
  "saveOfflineTag t s =
     (let tgs = getOfflineTags s;
          existingTagIndex = findIndex (\<lambda>u. tag_id u = tag_id t) tgs
      in if existingTagIndex \<ge> 0
         then storeOfflineTags (tgs[nat existingTagIndex := t]) s
         else storeOfflineTags (tgs @ [t]) s)"

definition deleteOfflineTag :: "int \<Rightarrow> local_storage \<Rightarrow> local_storage" where
  "deleteOfflineTag tid s =
     (let tgs = getOfflineTags s;
          filteredTags = filter (\<lambda>t. tag_id t \<noteq> tid) tgs;
          s1 = storeOfflineTags filteredTags s;
          noteTags = getOfflineNoteTags s1;
          filteredNoteTags = filter (\<lambda>nt. tagId nt \<noteq> tid) noteTags
      in storeOfflineNoteTags filteredNoteTags s1)"

definition addOfflineTagToNote :: "int \<Rightarrow> int \<Rightarrow> local_storage \<Rightarrow> local_storage" where
  "addOfflineTagToNote nid tid s =
     (let noteTags = getOfflineNoteTags s;
          exists = list_ex (\<lambda>nt. noteId nt = nid \<and> tagId nt = tid) noteTags
      in if exists then s
         else storeOfflineNoteTags (noteTags @ [\<lparr>noteId = nid, tagId = tid\<rparr>]) s)"

definition removeOfflineTagFromNote :: "int \<Rightarrow> int \<Rightarrow> local_storage \<Rightarrow> local_storage" where
  "removeOfflineTagFromNote nid tid s =
     (let noteTags = getOfflineNoteTags s;
          filteredNoteTags = filter (\<lambda>nt. \<not> (noteId nt = nid \<and> tagId nt = tid)) noteTags
      in storeOfflineNoteTags filteredNoteTags s)"

subsection \<open>Strings\<close>

text \<open>\<open>String.prototype.toLowerCase\<close> on ASCII text: \<open>A\<close>..\<open>Z\<close> become \<open>a\<close>..\<open>z\<close>.\<close>

definition toLowerCase_char :: "char \<Rightarrow> char" where
  "toLowerCase_char c =
     (let k = (of_char c :: nat)
      in if 65 \<le> k \<and> k \<le> 90 then char_of (k + 32) else c)"

definition toLowerCase :: "string \<Rightarrow> string" where
  "toLowerCase s = map toLowerCase_char s"

text \<open>
  \<open>strip_prefix l s\<close> is the rest of \<open>s\<close> after the literal \<open>l\<close>, when \<open>s\<close> starts
  with \<open>l\<close>. \<open>includes_js s q\<close> is \<open>s.includes(q)\<close>: \<open>q\<close> occurs in \<open>s\<close> at some position.
\<close>

fun strip_prefix :: "string \<Rightarrow> string \<Rightarrow> string option" where
  "strip_prefix [] s = Some s"
| "strip_prefix (a # as) [] = None"
| "strip_prefix (a # as) (b # bs) = (if a = b then strip_prefix as bs else None)"

fun includes_js :: "string \<Rightarrow> string \<Rightarrow> bool" where
  "includes_js [] q = (q = [])"
| "includes_js (c # cs) q = (strip_prefix q (c # cs) \<noteq> None \<or> includes_js cs q)"

definition searchOfflineNotes :: "string \<Rightarrow> local_storage \<Rightarrow> Note list" where
  "searchOfflineNotes query s =
     (let lowercaseQuery = toLowerCase query;
          notesWithTags = getOfflineNotesWithTags s
      in filter (\<lambda>n.
           includes_js (toLowerCase (title n)) lowercaseQuery \<or>
           includes_js (toLowerCase (content n)) lowercaseQuery \<or>
           list_ex (\<lambda>t. includes_js (toLowerCase (name t)) lowercaseQuery)
             (case tags n of None \<Rightarrow> [] | Some ts \<Rightarrow> ts)) notesWithTags)"

definition setLastSyncTime :: "int \<Rightarrow> local_storage \<Rightarrow> local_storage" where
  "setLastSyncTime timestamp s = s\<lparr>last_sync := Some timestamp\<rparr>"

section \<open>Regular expressions of the sources\<close>

text \<open>
  The regular expressions of the sources are sequences of literals, an optional literal,
  an alternation of literals and starred character classes, greedy (\<open>[^>]*\<close>) or lazy
  (\<open>(.*?)\<close>, \<open>([\s\S]*?)\<close>). Each is written with the combinators below, in
  continuation-passing style: a matcher tries to match at the start of the text it is
  given and hands the rest of the text (and what a group captured) to its continuation;
  when the continuation fails the matcher tries its next alternative, in the order of
  JavaScript's backtracking (greedy: longest first; lazy: shortest first; alternation:
  left to right). The result is that of the first alternative that succeeds.
\<close>

definition lit :: "string \<Rightarrow> (string \<Rightarrow> 'a option) \<Rightarrow> string \<Rightarrow> 'a option" where
  "lit l k s = (case strip_prefix l s of None \<Rightarrow> None | Some r \<Rightarrow> k r)"

definition opt_lit :: "string \<Rightarrow> (string \<Rightarrow> 'a option) \<Rightarrow> string \<Rightarrow> 'a option" where
  "opt_lit l k s = (case lit l k s of Some r \<Rightarrow> Some r | None \<Rightarrow> k s)"

fun alt_lit :: "string list \<Rightarrow> (string \<Rightarrow> 'a option) \<Rightarrow> string \<Rightarrow> 'a option" where
  "alt_lit [] k s = None"
| "alt_lit (l # ls) k s = (case lit l k s of Some r \<Rightarrow> Some r | None \<Rightarrow> alt_lit ls k s)"

text \<open>
  \<open>star_greedy P k acc s\<close>: the class \<open>P\<close> starred, \<open>acc\<close> the characters taken so far
  (the capture), \<open>s\<close> the text ahead.
\<close>

fun star_greedy ::
  "(char \<Rightarrow> bool) \<Rightarrow> (string \<Rightarrow> string \<Rightarrow> 'a option) \<Rightarrow> string \<Rightarrow> string \<Rightarrow> 'a option" where
  "star_greedy P k acc [] = k acc []"
| "star_greedy P k acc (c # cs) =
     (if P c
      then (case star_greedy P k (acc @ [c]) cs of Some r \<Rightarrow> Some r | None \<Rightarrow> k acc (c # cs))
      else k acc (c # cs))"

fun star_lazy ::
  "(char \<Rightarrow> bool) \<Rightarrow> (string \<Rightarrow> string \<Rightarrow> 'a option) \<Rightarrow> string \<Rightarrow> string \<Rightarrow> 'a option" where
  "star_lazy P k acc [] = k acc []"
| "star_lazy P k acc (c # cs) =
     (case k acc (c # cs) of
        Some r \<Rightarrow> Some r
      | None \<Rightarrow> if P c then star_lazy P k (acc @ [c]) cs else None)"

text \<open>Character classes: \<open>.\<close> (no line terminator), \<open>[\s\S]\<close>, \<open>[^>]\<close>, \<open>[^"]\<close>.\<close>

definition dot_js :: "char \<Rightarrow> bool" where
  "dot_js c = (c \<noteq> CHR 0x0A \<and> c \<noteq> CHR 0x0D)"

definition any_js :: "char \<Rightarrow> bool" where
  "any_js c = True"

definition not_gt :: "char \<Rightarrow> bool" where
  "not_gt c = (c \<noteq> CHR ''>'')"

definition not_dquote :: "char \<Rightarrow> bool" where
  "not_dquote c = (c \<noteq> CHR 0x22)"

text \<open>
  \<open>RegExp.prototype.exec\<close> of a regular expression without the \<open>g\<close> flag: the leftmost
  position where the matcher succeeds, with the text before it.
\<close>

fun exec_js :: "(string \<Rightarrow> 'a option) \<Rightarrow> string \<Rightarrow> string \<Rightarrow> (string \<times> 'a) option" where
  "exec_js m pre [] = (case m [] of None \<Rightarrow> None | Some r \<Rightarrow> Some (pre, r))"
| "exec_js m pre (c # cs) =
     (case m (c # cs) of Some r \<Rightarrow> Some (pre, r) | None \<Rightarrow> exec_js m (pre @ [c]) cs)"

text \<open>
  \<open>String.prototype.replace\<close> with a regular expression that has the \<open>g\<close> flag. The
  matcher yields the captures and the rest of the text; \<open>f i caps\<close> is the replacement
  for the match number \<open>i\<close>. After a match the scan goes on behind it (one character
  further when the match was empty); a character where nothing matches is copied.
\<close>

fun replace_fn ::
  "(string \<Rightarrow> ('c \<times> string) option) \<Rightarrow> (nat \<Rightarrow> 'c \<Rightarrow> string) \<Rightarrow> nat \<Rightarrow> string \<Rightarrow> string" where
  "replace_fn m f i s =
     (case m s of
        Some (caps, rest) \<Rightarrow>
          f i caps @
            (if length rest < length s then replace_fn m f (Suc i) rest
             else (case s of [] \<Rightarrow> [] | c # cs \<Rightarrow> c # replace_fn m f (Suc i) cs))
      | None \<Rightarrow> (case s of [] \<Rightarrow> [] | c # cs \<Rightarrow> c # replace_fn m f i cs))"

declare replace_fn.simps [simp del]

definition replace_all :: "(string \<Rightarrow> ('c \<times> string) option) \<Rightarrow> ('c \<Rightarrow> string) \<Rightarrow> string \<Rightarrow> string" where
  "replace_all m f s = replace_fn m (\<lambda>i. f) 0 s"

text \<open>
  \<open>GetSubstitution\<close> for \<open>String.prototype.replace\<close> with a string pattern: in the
  replacement text \<open>$$\<close> stands for \<open>$\<close>, \<open>$&\<close> for the matched text, \<open>$`\<close> for the
  text before the match and \<open>$'\<close> for the text after it. There are no groups, so a
  \<open>$\<close> before a digit stays as it is.
\<close>

fun getSubstitution :: "string \<Rightarrow> string \<Rightarrow> string \<Rightarrow> string \<Rightarrow> string" where
  "getSubstitution matched pre post [] = []"
| "getSubstitution matched pre post [c] = [c]"
| "getSubstitution matched pre post (c # d # r) =
     (if c = CHR 0x24 then
        (if d = CHR 0x24 then CHR 0x24 # getSubstitution matched pre post r
         else if d = CHR 0x26 then matched @ getSubstitution matched pre post r
         else if d = CHR 0x60 then pre @ getSubstitution matched pre post r
         else if d = CHR 0x27 then post @ getSubstitution matched pre post r
         else c # getSubstitution matched pre post (d # r))
      else c # getSubstitution matched pre post (d # r))"

text \<open>\<open>s.replace(pat, repl)\<close> with strings: the first occurrence of \<open>pat\<close> is replaced.\<close>

definition replace_str :: "string \<Rightarrow> string \<Rightarrow> string \<Rightarrow> string" where
  "replace_str s pat repl =
     (case exec_js (lit pat (\<lambda>r. Some r)) [] s of
        None \<Rightarrow> s
      | Some (pre, rest) \<Rightarrow> pre @ getSubstitution pat pre rest repl @ rest)"

text \<open>\<open>match[0]\<close>: the text between the text before the match and the rest.\<close>

definition matched_text :: "string \<Rightarrow> string \<Rightarrow> string \<Rightarrow> string" where
  "matched_text s pre rest = take (length s - length pre - length rest) (drop (length pre) s)"

text \<open>
  The two shapes of the patterns with one group:
  \<open><x>(.*?)</x>\<close> is \<open>rx_elem ''<x>'' ''</x>''\<close>, and
  \<open><x[^>]*>(C*?)</x>\<close> is \<open>rx_elem_attrs ''<x'' C ''</x>''\<close>.
\<close>

definition rx_elem :: "string \<Rightarrow> string \<Rightarrow> string \<Rightarrow> (string \<times> string) option" where
  "rx_elem opn cls =
     lit opn (star_lazy dot_js (\<lambda>g1. lit cls (\<lambda>rest. Some (g1, rest))) [])"

definition rx_elem_attrs ::
  "string \<Rightarrow> (char \<Rightarrow> bool) \<Rightarrow> string \<Rightarrow> string \<Rightarrow> (string \<times> string) option" where
  "rx_elem_attrs opn C cls =
     lit opn (star_greedy not_gt (\<lambda>_. lit ''>''
       (star_lazy C (\<lambda>g1. lit cls (\<lambda>rest. Some (g1, rest))) [])) [])"

section \<open>Server: HTML to Markdown (server/routes.ts)\<close>

text \<open>\<open>/<\/?(div|span|p)([^>]*)>/\<close>; its two groups are not used by the replacement.\<close>

definition rx_div_span_p :: "string \<Rightarrow> (unit \<times> string) option" where
  "rx_div_span_p =
     lit ''<'' (opt_lit ''/'' (alt_lit [''div'', ''span'', ''p'']
       (star_greedy not_gt (\<lambda>_. lit ''>'' (\<lambda>rest. Some ((), rest))) [])))"

text \<open>\<open>/<a href="([^"]*)"[^>]*>(.*?)<\/a>/\<close> and \<open>/<img src="([^"]*)"[^>]*>/\<close>.\<close>

definition rx_a_href :: "string \<Rightarrow> ((string \<times> string) \<times> string) option" where
  "rx_a_href =
     lit (''<a href='' @ [CHR 0x22]) (star_greedy not_dquote (\<lambda>g1. lit [CHR 0x22]
       (star_greedy not_gt (\<lambda>_. lit ''>''
         (star_lazy dot_js (\<lambda>g2. lit ''</a>'' (\<lambda>rest. Some ((g1, g2), rest))) [])) [])) [])"

definition rx_img_src :: "string \<Rightarrow> (string \<times> string) option" where
  "rx_img_src =
     lit (''<img src='' @ [CHR 0x22]) (star_greedy not_dquote (\<lambda>g1. lit [CHR 0x22]
       (star_greedy not_gt (\<lambda>_. lit ''>'' (\<lambda>rest. Some (g1, rest))) [])) [])"

text \<open>\<open>/\n\n\n+/\<close>.\<close>

definition rx_newlines :: "string \<Rightarrow> (unit \<times> string) option" where
  "rx_newlines =
     lit [CHR 0x0A, CHR 0x0A, CHR 0x0A]
       (star_greedy (\<lambda>c. c = CHR 0x0A) (\<lambda>_ rest. Some ((), rest)) [])"

definition rx_literal :: "string \<Rightarrow> string \<Rightarrow> (unit \<times> string) option" where
  "rx_literal l = lit l (\<lambda>rest. Some ((), rest))"

text \<open>The decimal digits of a number, for the template literal of \<open>convertOl\<close>.\<close>

fun string_of_nat :: "nat \<Rightarrow> string" where
  "string_of_nat n =
     (if n < 10 then [char_of (48 + n)]
      else string_of_nat (n div 10) @ [char_of (48 + n mod 10)])"

declare string_of_nat.simps [simp del]

definition ulPattern :: "string \<Rightarrow> (string \<times> string) option" where
  "ulPattern = rx_elem_attrs ''<ul'' any_js ''</ul>''"

definition olPattern :: "string \<Rightarrow> (string \<times> string) option" where
  "olPattern = rx_elem_attrs ''<ol'' any_js ''</ol>''"

definition liPattern :: "string \<Rightarrow> (string \<times> string) option" where
  "liPattern = rx_elem_attrs ''<li'' any_js ''</li>''"

definition codePattern :: "string \<Rightarrow> (string \<times> string) option" where
  "codePattern = rx_elem_attrs ''<pre><code'' any_js ''</code></pre>''"

definition blockquotePattern :: "string \<Rightarrow> (string \<times> string) option" where
  "blockquotePattern = rx_elem_attrs ''<blockquote'' any_js ''</blockquote>''"

text \<open>
  The four helpers loop while their pattern matches. Nothing in the source bounds the
  number of rounds (the replacement text is expanded by \<open>GetSubstitution\<close> and may put
  the match back), so each is a partial function: \<open>None\<close> is a loop that does not end.
\<close>

partial_function (option) convertUl :: "string \<Rightarrow> string option" where
  "convertUl result =
     (case exec_js ulPattern [] result of
        None \<Rightarrow> Some result
      | Some (pre, list, rest) \<Rightarrow>
          convertUl (replace_str result (matched_text result pre rest)
            (replace_all liPattern (\<lambda>g1. ''- '' @ g1 @ [CHR 0x0A]) list)))"

text \<open>
  In \<open>convertOl\<close> the replacement is a function, whose result is inserted as it is:
  the characters \<open>$1\<close> of its template literal are not a group reference.
\<close>

partial_function (option) convertOl :: "string \<Rightarrow> string option" where
  "convertOl result =
     (case exec_js olPattern [] result of
        None \<Rightarrow> Some result
      | Some (pre, list, rest) \<Rightarrow>
          convertOl (replace_str result (matched_text result pre rest)
            (replace_fn liPattern
               (\<lambda>i g1. string_of_nat (i + 1) @ ''. '' @ [CHR 0x24] @ ''1'' @ [CHR 0x0A]) 0 list)))"

partial_function (option) convertCodeBlocks :: "string \<Rightarrow> string option" where
  "convertCodeBlocks result =
     (case exec_js codePattern [] result of
        None \<Rightarrow> Some result
      | Some (pre, code, rest) \<Rightarrow>
          convertCodeBlocks (replace_str result (matched_text result pre rest)
            ([CHR 0x60, CHR 0x60, CHR 0x60, CHR 0x0A] @ code @
             [CHR 0x0A, CHR 0x60, CHR 0x60, CHR 0x60])))"

partial_function (option) convertBlockquotes :: "string \<Rightarrow> string option" where
  "convertBlockquotes result =
     (case exec_js blockquotePattern [] result of
        None \<Rightarrow> Some result
      | Some (pre, cont, rest) \<Rightarrow>
          convertBlockquotes (replace_str result (matched_text result pre rest) (''> '' @ cont)))"

declare convertUl.simps [code]
declare convertOl.simps [code]
declare convertCodeBlocks.simps [code]
declare convertBlockquotes.simps [code]

definition cleanNewlines :: "string \<Rightarrow> string" where
  "cleanNewlines text = replace_all rx_newlines (\<lambda>_. [CHR 0x0A, CHR 0x0A]) text"

text \<open>\<open>String.prototype.trim\<close>: the ASCII white space and line terminators.\<close>

definition is_space_js :: "char \<Rightarrow> bool" where
  "is_space_js c = (c \<in> {CHR 0x20, CHR 0x09, CHR 0x0A, CHR 0x0B, CHR 0x0C, CHR 0x0D})"

definition trim_js :: "string \<Rightarrow> string" where
  "trim_js s = rev (dropWhile is_space_js (rev (dropWhile is_space_js s)))"

text \<open>The chain of \<open>replace\<close> calls that starts the conversion, in the source's order.\<close>

definition inline_replacements :: "string \<Rightarrow> string" where
  "inline_replacements html =
     (let m1 = replace_all rx_div_span_p (\<lambda>_. [CHR 0x0A]) html;
          m2 = replace_all (rx_elem_attrs ''<h1'' dot_js ''</h1>'') (\<lambda>g1. ''# '' @ g1 @ [CHR 0x0A]) m1;
          m3 = replace_all (rx_elem_attrs ''<h2'' dot_js ''</h2>'') (\<lambda>g1. ''## '' @ g1 @ [CHR 0x0A]) m2;
          m4 = replace_all (rx_elem_attrs ''<h3'' dot_js ''</h3>'') (\<lambda>g1. ''### '' @ g1 @ [CHR 0x0A]) m3;
          m5 = replace_all (rx_elem ''<strong>'' ''</strong>'') (\<lambda>g1. ''**'' @ g1 @ ''**'') m4;
          m6 = replace_all (rx_elem ''<b>'' ''</b>'') (\<lambda>g1. ''**'' @ g1 @ ''**'') m5;
          m7 = replace_all (rx_elem ''<em>'' ''</em>'') (\<lambda>g1. ''*'' @ g1 @ ''*'') m6;
          m8 = replace_all (rx_elem ''<i>'' ''</i>'') (\<lambda>g1. ''*'' @ g1 @ ''*'') m7;
          m9 = replace_all (rx_elem ''<u>'' ''</u>'') (\<lambda>g1. ''_'' @ g1 @ ''_'') m8;
          m10 = replace_all (rx_elem ''<s>'' ''</s>'') (\<lambda>g1. ''~~'' @ g1 @ ''~~'') m9;
          m11 = replace_all rx_a_href (\<lambda>(g1, g2). ''['' @ g2 @ '']('' @ g1 @ '')'') m10;
          m12 = replace_all rx_img_src (\<lambda>g1. ''![]('' @ g1 @ '')'') m11
      in replace_all (rx_elem ''<code>'' ''</code>'') (\<lambda>g1. [CHR 0x60] @ g1 @ [CHR 0x60]) m12)"

definition fix_entities :: "string \<Rightarrow> string" where
  "fix_entities markdown =
     (let e1 = replace_all (rx_literal ''&lt;'') (\<lambda>_. ''<'') markdown;
          e2 = replace_all (rx_literal ''&gt;'') (\<lambda>_. ''>'') e1;
          e3 = replace_all (rx_literal ''&quot;'') (\<lambda>_. [CHR 0x22]) e2
      in replace_all (rx_literal ''&amp;'') (\<lambda>_. ''&'') e3)"

definition htmlToMarkdown :: "string \<Rightarrow> string option" where
  "htmlToMarkdown html =
     Option.bind (convertUl (inline_replacements html)) (\<lambda>u.
     Option.bind (convertOl u) (\<lambda>ol.
     Option.bind (convertCodeBlocks ol) (\<lambda>cb.
     Option.bind (convertBlockquotes cb) (\<lambda>bq.
       Some (trim_js (fix_entities (cleanNewlines bq)))))))"

section \<open>Server repository (server/storage.ts, class MemStorage)\<close>

text \<open>
  A JavaScript \<open>Map\<close> keeps its keys in insertion order; \<open>set\<close> on a key that is
  present replaces the value in place. The maps are association lists with
  \<open>AList.update\<close> for \<open>set\<close>, \<open>map_of\<close> for \<open>get\<close>, \<open>AList.delete\<close> for \<open>delete\<close>
  and \<open>map snd\<close> for \<open>values()\<close>. The user table, which no note or tag method
  touches, is left out. The counters are JavaScript numbers that hold integers; they
  are unbounded integers here (a number is exact on integers up to \<open>2^53\<close>).
\<close>

record StoredNoteTag = NoteTag +
  nt_id :: int

text \<open>
  \<open>InsertNote\<close> and \<open>InsertTag\<close> with their properties present, as the types \<open>Note\<close>
  and \<open>Tag\<close> of the created objects require.
\<close>

record InsertNote =
  i_title :: string
  i_content :: string
  i_isFavorite :: bool
  i_isDeleted :: bool

record InsertTag =
  i_name :: string
  i_color :: string

record MemStorage =
  ms_notes :: "(int \<times> Note) list"
  ms_tags :: "(int \<times> Tag) list"
  ms_noteTags :: "(int \<times> StoredNoteTag) list"
  noteCurrentId :: int
  tagCurrentId :: int
  noteTagCurrentId :: int

definition createTag :: "InsertTag \<Rightarrow> MemStorage \<Rightarrow> Tag \<times> MemStorage" where
  "createTag insertTag st =
     (let i = tagCurrentId st;
          t = \<lparr>tag_id = i, name = i_name insertTag, color = i_color insertTag\<rparr>
      in (t, st\<lparr>tagCurrentId := i + 1, ms_tags := AList.update i t (ms_tags st)\<rparr>))"

text \<open>The constructor: empty maps, counters at 1, then the five default tags.\<close>

definition new_MemStorage :: MemStorage where
  "new_MemStorage =
     (let st0 = \<lparr>ms_notes = [], ms_tags = [], ms_noteTags = [],
                 noteCurrentId = 1, tagCurrentId = 1, noteTagCurrentId = 1\<rparr>;
          st1 = snd (createTag \<lparr>i_name = ''Work'', i_color = ''#3B82F6''\<rparr> st0);
          st2 = snd (createTag \<lparr>i_name = ''Personal'', i_color = ''#10B981''\<rparr> st1);
          st3 = snd (createTag \<lparr>i_name = ''Ideas'', i_color = ''#8B5CF6''\<rparr> st2);
          st4 = snd (createTag \<lparr>i_name = ''Meeting'', i_color = ''#8B5CF6''\<rparr> st3)
      in snd (createTag \<lparr>i_name = ''Planning'', i_color = ''#3B82F6''\<rparr> st4))"

definition getNotes :: "bool \<Rightarrow> MemStorage \<Rightarrow> Note list" where
  "getNotes includeDeleted st =
     filter (\<lambda>n. includeDeleted \<or> \<not> isDeleted n) (map snd (ms_notes st))"

definition getNote :: "int \<Rightarrow> MemStorage \<Rightarrow> Note option" where
  "getNote i st = map_of (ms_notes st) i"

text \<open>\<open>now\<close> is the reading of the clock (\<open>new Date()\<close>) of the call.\<close>

definition createNote :: "InsertNote \<Rightarrow> int \<Rightarrow> MemStorage \<Rightarrow> Note \<times> MemStorage" where
  "createNote insertNote now st =
     (let i = noteCurrentId st;
          n = \<lparr>note_id = i, title = i_title insertNote, content = i_content insertNote,
               isFavorite = i_isFavorite insertNote, isDeleted = i_isDeleted insertNote,
               createdAt = now, updatedAt = now, tags = None, tagIds = None\<rparr>
      in (n, st\<lparr>noteCurrentId := i + 1, ms_notes := AList.update i n (ms_notes st)\<rparr>))"

text \<open>
  \<open>{ ...note, ...noteUpdate }\<close> for a \<open>Partial<InsertNote>\<close>: the properties that are
  present replace the note's. (The route passes the request through the schema, which
  drops \<open>tagIds\<close>.)
\<close>

definition spread_InsertNote :: "partial_note \<Rightarrow> Note \<Rightarrow> Note" where
  "spread_InsertNote u n =
     n\<lparr>title := (case p_title u of None \<Rightarrow> title n | Some v \<Rightarrow> v),
       content := (case p_content u of None \<Rightarrow> content n | Some v \<Rightarrow> v),
       isFavorite := (case p_isFavorite u of None \<Rightarrow> isFavorite n | Some v \<Rightarrow> v),
       isDeleted := (case p_isDeleted u of None \<Rightarrow> isDeleted n | Some v \<Rightarrow> v)\<rparr>"

definition updateNote :: "int \<Rightarrow> partial_note \<Rightarrow> int \<Rightarrow> MemStorage \<Rightarrow> Note option \<times> MemStorage" where
  "updateNote i noteUpdate now st =
     (case map_of (ms_notes st) i of
        None \<Rightarrow> (None, st)
      | Some n \<Rightarrow>
          (let updatedNote = (spread_InsertNote noteUpdate n)\<lparr>updatedAt := now\<rparr>
           in (Some updatedNote, st\<lparr>ms_notes := AList.update i updatedNote (ms_notes st)\<rparr>)))"

definition deleteNote :: "int \<Rightarrow> int \<Rightarrow> MemStorage \<Rightarrow> bool \<times> MemStorage" where
  "deleteNote i now st =
     (case map_of (ms_notes st) i of
        None \<Rightarrow> (False, st)
      | Some n \<Rightarrow>
          (let updatedNote = n\<lparr>isDeleted := True, updatedAt := now\<rparr>
           in (True, st\<lparr>ms_notes := AList.update i updatedNote (ms_notes st)\<rparr>)))"

definition restoreNote :: "int \<Rightarrow> int \<Rightarrow> MemStorage \<Rightarrow> Note option \<times> MemStorage" where
  "restoreNote i now st =
     (case map_of (ms_notes st) i of
        None \<Rightarrow> (None, st)
      | Some n \<Rightarrow>
          (let updatedNote = n\<lparr>isDeleted := False, updatedAt := now\<rparr>
           in (Some updatedNote, st\<lparr>ms_notes := AList.update i updatedNote (ms_notes st)\<rparr>)))"

definition toggleFavorite :: "int \<Rightarrow> int \<Rightarrow> MemStorage \<Rightarrow> Note option \<times> MemStorage" where
  "toggleFavorite i now st =
     (case map_of (ms_notes st) i of
        None \<Rightarrow> (None, st)
      | Some n \<Rightarrow>
          (let updatedNote = n\<lparr>isFavorite := \<not> isFavorite n, updatedAt := now\<rparr>
           in (Some updatedNote, st\<lparr>ms_notes := AList.update i updatedNote (ms_notes st)\<rparr>)))"

definition getTags :: "MemStorage \<Rightarrow> Tag list" where
  "getTags st = map snd (ms_tags st)"

definition getTag :: "int \<Rightarrow> MemStorage \<Rightarrow> Tag option" where
  "getTag i st = map_of (ms_tags st) i"

definition updateTag :: "int \<Rightarrow> string option \<Rightarrow> string option \<Rightarrow> MemStorage \<Rightarrow> Tag option \<times> MemStorage" where
  "updateTag i u_name u_color st =
     (case map_of (ms_tags st) i of
        None \<Rightarrow> (None, st)
      | Some t \<Rightarrow>
          (let updatedTag = t\<lparr>name := (case u_name of None \<Rightarrow> name t | Some v \<Rightarrow> v),
                                color := (case u_color of None \<Rightarrow> color t | Some v \<Rightarrow> v)\<rparr>
           in (Some updatedTag, st\<lparr>ms_tags := AList.update i updatedTag (ms_tags st)\<rparr>)))"

definition deleteTag :: "int \<Rightarrow> MemStorage \<Rightarrow> bool \<times> MemStorage" where
  "deleteTag i st =
     (let noteTagsToRemove = filter (\<lambda>nt. tagId nt = i) (map snd (ms_noteTags st));
          st1 = st\<lparr>ms_noteTags := fold (\<lambda>nt m. AList.delete (nt_id nt) m) noteTagsToRemove (ms_noteTags st)\<rparr>
      in (map_of (ms_tags st1) i \<noteq> None, st1\<lparr>ms_tags := AList.delete i (ms_tags st1)\<rparr>))"

definition getTagsForNote :: "int \<Rightarrow> MemStorage \<Rightarrow> Tag list" where
  "getTagsForNote nid st =
     (let tagIds' = map tagId (filter (\<lambda>nt. noteId nt = nid) (map snd (ms_noteTags st)))
      in filter (\<lambda>t. tag_id t \<in> set tagIds') (map snd (ms_tags st)))"

definition getNoteWithTags :: "int \<Rightarrow> MemStorage \<Rightarrow> Note option" where
  "getNoteWithTags nid st =
     (case map_of (ms_notes st) nid of
        None \<Rightarrow> None
      | Some n \<Rightarrow> Some (n\<lparr>tags := Some (getTagsForNote nid st)\<rparr>))"

definition getNotesWithTags :: "bool \<Rightarrow> MemStorage \<Rightarrow> Note list" where
  "getNotesWithTags includeDeleted st =
     map (\<lambda>n. n\<lparr>tags := Some (getTagsForNote (note_id n) st)\<rparr>) (getNotes includeDeleted st)"

definition getNotesByTag :: "int \<Rightarrow> MemStorage \<Rightarrow> Note list" where
  "getNotesByTag tid st =
     (let noteIds = map noteId (filter (\<lambda>nt. tagId nt = tid) (map snd (ms_noteTags st)))
      in filter (\<lambda>n. note_id n \<in> set noteIds \<and> \<not> isDeleted n) (map snd (ms_notes st)))"

definition addTagToNote :: "int \<Rightarrow> int \<Rightarrow> MemStorage \<Rightarrow> MemStorage" where
  "addTagToNote nid tid st =
     (let exists = list_ex (\<lambda>nt. noteId nt = nid \<and> tagId nt = tid) (map snd (ms_noteTags st))
      in if exists then st
         else (let i = noteTagCurrentId st;
                   nt = \<lparr>noteId = nid, tagId = tid, nt_id = i\<rparr>
               in st\<lparr>noteTagCurrentId := i + 1, ms_noteTags := AList.update i nt (ms_noteTags st)\<rparr>))"

definition removeTagFromNote :: "int \<Rightarrow> int \<Rightarrow> MemStorage \<Rightarrow> MemStorage" where
  "removeTagFromNote nid tid st =
     (case find_js (\<lambda>nt. noteId nt = nid \<and> tagId nt = tid) (map snd (ms_noteTags st)) of
        None \<Rightarrow> st
      | Some noteTagToRemove \<Rightarrow>
          st\<lparr>ms_noteTags := AList.delete (nt_id noteTagToRemove) (ms_noteTags st)\<rparr>)"

text \<open>\<open>!query.trim()\<close> holds when the trimmed query is the empty string.\<close>

definition searchNotes :: "string \<Rightarrow> MemStorage \<Rightarrow> Note list" where
  "searchNotes query st =
     (if trim_js query = [] then getNotesWithTags False st
      else (let lowercaseQuery = toLowerCase query;
                matchingNotes = filter (\<lambda>n.
                  (includes_js (toLowerCase (title n)) lowercaseQuery \<or>
                   includes_js (toLowerCase (content n)) lowercaseQuery) \<and>
                  \<not> isDeleted n) (map snd (ms_notes st))
            in map (\<lambda>n. n\<lparr>tags := Some (getTagsForNote (note_id n) st)\<rparr>) matchingNotes))"

section \<open>Server: the export route (server/routes.ts)\<close>

datatype body = Text string | Json Note | JsonIndented Note | JsonMessage string

record response =
  status :: nat
  contentType :: "string option"
  contentDisposition :: "string option"
  body :: body

text \<open>\<open>title.replace(/[^a-z0-9]/gi, '_')\<close>.\<close>

definition is_alnum :: "char \<Rightarrow> bool" where
  "is_alnum c =
     (let k = (of_char c :: nat)
      in (48 \<le> k \<and> k \<le> 57) \<or> (65 \<le> k \<and> k \<le> 90) \<or> (97 \<le> k \<and> k \<le> 122))"

definition sanitize_filename :: "string \<Rightarrow> string" where
  "sanitize_filename t = map (\<lambda>c. if is_alnum c then c else CHR ''_'') t"

definition attachment :: "string \<Rightarrow> string \<Rightarrow> string" where
  "attachment t ext =
     ''attachment; filename='' @ [CHR 0x22] @ sanitize_filename t @ ext @ [CHR 0x22]"

text \<open>
  \<open>GET /notes/:id/export\<close>, with the parsed \<open>id\<close> and the \<open>format\<close> query parameter
  (\<open>None\<close> when it is missing). The result is \<open>None\<close> when the handler does not
  answer, which is when \<open>htmlToMarkdown\<close> does not return.
\<close>

definition export_route :: "int \<Rightarrow> string option \<Rightarrow> MemStorage \<Rightarrow> response option" where
  "export_route i format_q st =
     (let format = (case format_q of None \<Rightarrow> ''text'' | Some f \<Rightarrow> if f = [] then ''text'' else f)
      in case getNoteWithTags i st of
           None \<Rightarrow>
             Some \<lparr>status = 404, contentType = None, contentDisposition = None,
                   body = JsonMessage ''Note not found''\<rparr>
         | Some n \<Rightarrow>
             if format = ''text'' then
               Some \<lparr>status = 200, contentType = Some ''text/plain'',
                     contentDisposition = Some (attachment (title n) ''.txt''),
                     body = Text (title n @ [CHR 0x0A, CHR 0x0A] @ content n)\<rparr>
             else if format = ''markdown'' then
               (case htmlToMarkdown (content n) of
                  None \<Rightarrow> None
                | Some markdown \<Rightarrow>
                    Some \<lparr>status = 200, contentType = Some ''text/markdown'',
                          contentDisposition = Some (attachment (title n) ''.md''),
                          body = Text (''# '' @ title n @ [CHR 0x0A, CHR 0x0A] @ markdown)\<rparr>)
             else
               Some \<lparr>status = 200, contentType = Some ''application/json'',
                     contentDisposition = Some (attachment (title n) ''.json''),
                     body = Json n\<rparr>)"

section \<open>Sync orchestrator: the hooks (client/src/hooks/useNotes.ts, useTags.ts)\<close>

text \<open>
  Modelled from the spec: \<open>apiRequest\<close> of \<open>@/lib/queryClient\<close> is not among the
  sources. By the spec (4.2) a failure of the Remote API surfaces as a typed error that
  carries the HTTP-like status and a message, and "network unreachable" is distinct
  from "request rejected". The outcome of the remote call is a parameter of every hook:
  \<open>Inl e\<close> when the call throws (for \<open>fetch\<close>: when it rejects, or when the hook
  throws on a response that is not \<open>ok\<close>), \<open>Inr b\<close> with the parsed body \<open>b\<close> of a
  successful response.
\<close>

datatype api_error = NetworkUnreachable | ApplicationRejected nat string

text \<open>
  Each hook's \<open>mutationFn\<close> or \<open>queryFn\<close> takes, besides its arguments: \<open>offline\<close>, the
  value of \<open>isOffline()\<close>; \<open>remote\<close>, the outcome of the remote call; \<open>now\<close>, the
  reading of the clock; and the Local Store. It returns its result (\<open>Inl\<close> when it
  throws) and the new Local Store. Toasts, logs and query invalidation are left out.
\<close>


definition saveUserNotes :: "string \<Rightarrow> Note list \<Rightarrow> local_storage \<Rightarrow> local_storage" where
  "saveUserNotes userId ns s = s\<lparr>cloudinary_notes := (cloudinary_notes s)(userId := Some ns)\<rparr>"



text \<open>\<open>-Math.floor(Math.random() * 10000000)\<close>, \<open>rnd\<close> the value of \<open>Math.random()\<close>.\<close>

definition tempId :: "real \<Rightarrow> int" where
  "tempId rnd = - \<lfloor>rnd * 10000000\<rfloor>"

definition useCreateNote ::
  "partial_note \<Rightarrow> string option \<Rightarrow> bool \<Rightarrow> (api_error + Note) \<Rightarrow> int \<Rightarrow> real \<Rightarrow> local_storage
     \<Rightarrow> (error + Note) \<times> local_storage" where
  "useCreateNote n userId offline remote now rnd s =
     (if offline then
        (let offlineNote =
           \<lparr>note_id = tempId rnd,
            title = (case p_title n of None \<Rightarrow> ''Untitled'' | Some t \<Rightarrow> if t = [] then ''Untitled'' else t),
            content = (case p_content n of None \<Rightarrow> [] | Some c \<Rightarrow> if c = [] then [] else c),
            isFavorite = (case p_isFavorite n of None \<Rightarrow> False | Some b \<Rightarrow> if b then b else False),
            isDeleted = (case p_isDeleted n of None \<Rightarrow> False | Some b \<Rightarrow> if b then b else False),
            createdAt = now, updatedAt = now, tags = None, tagIds = None\<rparr>
         in (Inr offlineNote, saveOfflineNote offlineNote s))
      else
        (case remote of
           Inr createdNote \<Rightarrow>
             (let s1 = saveOfflineNote createdNote s
              in case userId of
                   None \<Rightarrow> (Inr createdNote, s1)
                 | Some u \<Rightarrow>
                     (Inr createdNote,
                      setLastSyncTime now (saveUserNotes u (getOfflineNotesWithTags s1) s1)))
         | Inl e \<Rightarrow>
             (let offlineNote =
                \<lparr>note_id = tempId rnd,
                 title = (case p_title n of None \<Rightarrow> ''Untitled'' | Some t \<Rightarrow> if t = [] then ''Untitled'' else t),
                 content = (case p_content n of None \<Rightarrow> [] | Some c \<Rightarrow> if c = [] then [] else c),
                 isFavorite = (case p_isFavorite n of None \<Rightarrow> False | Some b \<Rightarrow> if b then b else False),
                 isDeleted = (case p_isDeleted n of None \<Rightarrow> False | Some b \<Rightarrow> if b then b else False),
                 createdAt = now, updatedAt = now, tags = None, tagIds = None\<rparr>
              in (Inr offlineNote, saveOfflineNote offlineNote s))))"

text \<open>\<open>{ ...offlineNote, ...note }\<close> on the client, where the request may carry \<open>tagIds\<close>.\<close>

definition spread_partial_note :: "partial_note \<Rightarrow> Note \<Rightarrow> Note" where
  "spread_partial_note u n =
     (spread_InsertNote u n)\<lparr>tagIds := (case p_tagIds u of None \<Rightarrow> tagIds n | Some v \<Rightarrow> Some v)\<rparr>"

definition useUpdateNote ::
  "int \<Rightarrow> partial_note \<Rightarrow> string option \<Rightarrow> bool \<Rightarrow> (api_error + Note) \<Rightarrow> int \<Rightarrow> local_storage
     \<Rightarrow> (error + Note) \<times> local_storage" where
  "useUpdateNote i n userId offline remote now s =
     (if offline then
        (case getOfflineNoteWithTags i s of
           None \<Rightarrow> (Inl (Error ''Note not found in offline storage''), s)
         | Some offlineNote \<Rightarrow>
             (let updatedNote = (spread_partial_note n offlineNote)\<lparr>updatedAt := now\<rparr>
              in (Inr updatedNote, saveOfflineNote updatedNote s)))
      else
        (case remote of
           Inr updatedNote \<Rightarrow>
             (let s1 = saveOfflineNote updatedNote s
              in case userId of
                   None \<Rightarrow> (Inr updatedNote, s1)
                 | Some u \<Rightarrow>
                     (Inr updatedNote,
                      setLastSyncTime now (saveUserNotes u (getOfflineNotesWithTags s1) s1)))
         | Inl e \<Rightarrow>
             (case getOfflineNoteWithTags i s of
                None \<Rightarrow>
                  (Inl (Error ''Failed to update note and note not found in offline storage''), s)
              | Some offlineNote \<Rightarrow>
                  (let updatedNote = (spread_partial_note n offlineNote)\<lparr>updatedAt := now\<rparr>
                   in (Inr updatedNote, saveOfflineNote updatedNote s)))))"

text \<open>
  In \<open>useDeleteNote\<close> and \<open>useRestoreNote\<close> the body of a successful response is spread
  as a note object; it is typed here as the hook uses it.
\<close>

definition useDeleteNote ::
  "int \<Rightarrow> bool \<Rightarrow> (api_error + Note) \<Rightarrow> int \<Rightarrow> local_storage
     \<Rightarrow> (error + Note) \<times> local_storage" where
  "useDeleteNote i offline remote now s =
     (if offline then
        (case getOfflineNoteWithTags i s of
           None \<Rightarrow> (Inl (Error ''Note not found in offline storage''), s)
         | Some offlineNote \<Rightarrow>
             (let deletedNote = offlineNote\<lparr>isDeleted := True, updatedAt := now\<rparr>
              in (Inr deletedNote, saveOfflineNote deletedNote s)))
      else
        (case remote of
           Inr deletedNote \<Rightarrow>
             (Inr deletedNote, saveOfflineNote (deletedNote\<lparr>isDeleted := True, updatedAt := now\<rparr>) s)
         | Inl e \<Rightarrow>
             (case getOfflineNoteWithTags i s of
                None \<Rightarrow>
                  (Inl (Error ''Failed to delete note and note not found in offline storage''), s)
              | Some offlineNote \<Rightarrow>
                  (let deletedNote = offlineNote\<lparr>isDeleted := True, updatedAt := now\<rparr>
                   in (Inr deletedNote, saveOfflineNote deletedNote s)))))"

definition useRestoreNote ::
  "int \<Rightarrow> bool \<Rightarrow> (api_error + Note) \<Rightarrow> int \<Rightarrow> local_storage
     \<Rightarrow> (error + Note) \<times> local_storage" where
  "useRestoreNote i offline remote now s =
     (if offline then
        (case getOfflineNoteWithTags i s of
           None \<Rightarrow> (Inl (Error ''Note not found in offline storage''), s)
         | Some offlineNote \<Rightarrow>
             (let restoredNote = offlineNote\<lparr>isDeleted := False, updatedAt := now\<rparr>
              in (Inr restoredNote, saveOfflineNote restoredNote s)))
      else
        (case remote of
           Inr restoredNote \<Rightarrow>
             (Inr restoredNote, saveOfflineNote (restoredNote\<lparr>isDeleted := False, updatedAt := now\<rparr>) s)
         | Inl e \<Rightarrow>
             (case getOfflineNoteWithTags i s of
                None \<Rightarrow>
                  (Inl (Error ''Failed to restore note and note not found in offline storage''), s)
              | Some offlineNote \<Rightarrow>
                  (let restoredNote = offlineNote\<lparr>isDeleted := False, updatedAt := now\<rparr>
                   in (Inr restoredNote, saveOfflineNote restoredNote s)))))"

definition useToggleFavorite ::
  "int \<Rightarrow> bool \<Rightarrow> (api_error + Note) \<Rightarrow> int \<Rightarrow> local_storage
     \<Rightarrow> (error + Note) \<times> local_storage" where
  "useToggleFavorite i offline remote now s =
     (if offline then
        (case getOfflineNoteWithTags i s of
           None \<Rightarrow> (Inl (Error ''Note not found in offline storage''), s)
         | Some offlineNote \<Rightarrow>
             (let updatedNote = offlineNote\<lparr>isFavorite := \<not> isFavorite offlineNote, updatedAt := now\<rparr>
              in (Inr updatedNote, saveOfflineNote updatedNote s)))
      else
        (case remote of
           Inr updatedNote \<Rightarrow> (Inr updatedNote, saveOfflineNote updatedNote s)
         | Inl e \<Rightarrow>
             (case getOfflineNoteWithTags i s of
                None \<Rightarrow>
                  (Inl (Error ''Failed to toggle favorite and note not found in offline storage''), s)
              | Some offlineNote \<Rightarrow>
                  (let updatedNote = offlineNote\<lparr>isFavorite := \<not> isFavorite offlineNote, updatedAt := now\<rparr>
                   in (Inr updatedNote, saveOfflineNote updatedNote s)))))"



text \<open>
  The result of the two relation hooks is the body of the response (the tags of the
  note) when the remote call succeeded and \<open>{ success: true }\<close> otherwise.
\<close>

datatype relation_result = Success | Body "Tag list"

definition useAddTagToNote ::
  "int \<Rightarrow> int \<Rightarrow> bool \<Rightarrow> (api_error + Tag list) \<Rightarrow> local_storage
     \<Rightarrow> (error + relation_result) \<times> local_storage" where
  "useAddTagToNote nid tid offline remote s =
     (if offline then
        (case getOfflineNoteWithTags nid s of
           None \<Rightarrow> (Inl (Error ''Note not found in offline storage''), s)
         | Some n \<Rightarrow>
             (case find_js (\<lambda>t. tag_id t = tid) (getOfflineTags s) of
                None \<Rightarrow> (Inl (Error ''Tag not found in offline storage''), s)
              | Some t \<Rightarrow> (Inr Success, addOfflineTagToNote nid tid s)))
      else
        (case remote of
           Inr result \<Rightarrow> (Inr (Body result), addOfflineTagToNote nid tid s)
         | Inl e \<Rightarrow>
             (case getOfflineNoteWithTags nid s of
                None \<Rightarrow> (Inl (Error ''Note not found in offline storage''), s)
              | Some n \<Rightarrow>
                  (case find_js (\<lambda>t. tag_id t = tid) (getOfflineTags s) of
                     None \<Rightarrow> (Inl (Error ''Tag not found in offline storage''), s)
                   | Some t \<Rightarrow> (Inr Success, addOfflineTagToNote nid tid s)))))"

definition useRemoveTagFromNote ::
  "int \<Rightarrow> int \<Rightarrow> bool \<Rightarrow> (api_error + Tag list) \<Rightarrow> local_storage
     \<Rightarrow> (error + relation_result) \<times> local_storage" where
  "useRemoveTagFromNote nid tid offline remote s =
     (if offline then
        (case getOfflineNoteWithTags nid s of
           None \<Rightarrow> (Inl (Error ''Note not found in offline storage''), s)
         | Some n \<Rightarrow>
             (case find_js (\<lambda>t. tag_id t = tid) (getOfflineTags s) of
                None \<Rightarrow> (Inl (Error ''Tag not found in offline storage''), s)
              | Some t \<Rightarrow> (Inr Success, removeOfflineTagFromNote nid tid s)))
      else
        (case remote of
           Inr result \<Rightarrow> (Inr (Body result), removeOfflineTagFromNote nid tid s)
         | Inl e \<Rightarrow>
             (case getOfflineNoteWithTags nid s of
                None \<Rightarrow> (Inl (Error ''Note not found in offline storage''), s)
              | Some n \<Rightarrow>
                  (case find_js (\<lambda>t. tag_id t = tid) (getOfflineTags s) of
                     None \<Rightarrow> (Inl (Error ''Tag not found in offline storage''), s)
                   | Some t \<Rightarrow> (Inr Success, removeOfflineTagFromNote nid tid s)))))"

subsection \<open>Export (useExportNote)\<close>









section \<open>Predicates and example states used by the theorems\<close>

text \<open>
  No dangling relation: every relation row of the Local Store names a note id of the
  notes collection and a tag id of the tags collection.
\<close>

definition relations_consistent :: "local_storage \<Rightarrow> bool" where
  "relations_consistent s =
     list_all (\<lambda>nt. noteId nt \<in> set (map note_id (offline_notes s)) \<and>
                     tagId nt \<in> set (map tag_id (offline_tags s)))
       (offline_note_tags s)"

definition empty_storage :: local_storage where
  "empty_storage = \<lparr>offline_notes = [], offline_tags = [], offline_note_tags = [],
                     last_sync = None, cloudinary_notes = (\<lambda>u. None)\<rparr>"


text \<open>Example data: a tag, the note of the export scenario, and a store that holds both.\<close>

definition sample_tag :: Tag where
  "sample_tag = \<lparr>tag_id = 1, name = ''Work'', color = ''#3B82F6''\<rparr>"

definition sample_note :: Note where
  "sample_note =
     \<lparr>note_id = 1, title = ''Trip'', content = ''<p>Pack bags</p>'', isFavorite = False,
      isDeleted = False, createdAt = 1000, updatedAt = 1000, tags = None, tagIds = None\<rparr>"

definition sample_storage :: local_storage where
  "sample_storage =
     \<lparr>offline_notes = [sample_note], offline_tags = [sample_tag],
      offline_note_tags = [\<lparr>noteId = 1, tagId = 1\<rparr>],
      last_sync = None, cloudinary_notes = (\<lambda>u. None)\<rparr>"

text \<open>
  A call to the repository that changes it, and a sequence of such calls: whatever the
  routes do to the repository between two points is some list of these.
\<close>

datatype storage_call =
    CreateNote InsertNote int
  | UpdateNote int partial_note int
  | DeleteNote int int
  | RestoreNote int int
  | ToggleFavorite int int
  | CreateTag InsertTag
  | UpdateTag int "string option" "string option"
  | DeleteTag int
  | AddTagToNote int int
  | RemoveTagFromNote int int

fun call :: "storage_call \<Rightarrow> MemStorage \<Rightarrow> MemStorage" where
  "call (CreateNote ins now) st = snd (createNote ins now st)"
| "call (UpdateNote i u now) st = snd (updateNote i u now st)"
| "call (DeleteNote i now) st = snd (deleteNote i now st)"
| "call (RestoreNote i now) st = snd (restoreNote i now st)"
| "call (ToggleFavorite i now) st = snd (toggleFavorite i now st)"
| "call (CreateTag ins) st = snd (createTag ins st)"
| "call (UpdateTag i n c) st = snd (updateTag i n c st)"
| "call (DeleteTag i) st = snd (deleteTag i st)"
| "call (AddTagToNote i j) st = addTagToNote i j st"
| "call (RemoveTagFromNote i j) st = removeTagFromNote i j st"

definition calls :: "storage_call list \<Rightarrow> MemStorage \<Rightarrow> MemStorage" where
  "calls cs st = fold call cs st"

text \<open>The note of the export scenario, created in a fresh repository at time 1000.\<close>

definition trip_insert :: InsertNote where
  "trip_insert = \<lparr>i_title = ''Trip'', i_content = ''<p>Pack bags</p>'',
                   i_isFavorite = False, i_isDeleted = False\<rparr>"

definition trip_created :: Note where
  "trip_created = fst (createNote trip_insert 1000 new_MemStorage)"

definition trip_server :: MemStorage where
  "trip_server = snd (createNote trip_insert 1000 new_MemStorage)"

text \<open>The sample note moved to the trash, and a store whose only note it is.\<close>

definition trashed_note :: Note where
  "trashed_note = sample_note\<lparr>isDeleted := True\<rparr>"

definition trash_storage :: local_storage where
  "trash_storage = sample_storage\<lparr>offline_notes := [trashed_note]\<rparr>"

text \<open>Requests, and the notes they lead to in the examples below.\<close>

definition trip_request :: partial_note where
  "trip_request = \<lparr>p_title = Some ''Trip'', p_content = Some ''<p>Pack bags</p>'',
                    p_isFavorite = None, p_isDeleted = None, p_tagIds = None\<rparr>"

definition trip_placeholder :: Note where
  "trip_placeholder =
     \<lparr>note_id = - 5000000, title = ''Trip'', content = ''<p>Pack bags</p>'', isFavorite = False,
      isDeleted = False, createdAt = 1000, updatedAt = 1000, tags = None, tagIds = None\<rparr>"

definition trip_response :: Note where
  "trip_response = trip_created\<lparr>tags := Some []\<rparr>"

definition rename_request :: partial_note where
  "rename_request = \<lparr>p_title = Some ''Changed'', p_content = None,
                      p_isFavorite = None, p_isDeleted = None, p_tagIds = None\<rparr>"

definition renamed_note :: Note where
  "renamed_note = sample_note\<lparr>title := ''Changed'', updatedAt := 2000, tags := Some [sample_tag]\<rparr>"









section \<open>Local Store: relation rows\<close>

lemma findIndex_found:
  "0 \<le> findIndex P xs \<Longrightarrow> nat (findIndex P xs) < length xs \<and> P (xs ! nat (findIndex P xs))"
proof (induction xs)
  case Nil
  then show ?case by simp
next
  case (Cons x xs)
  show ?case
  proof (cases "P x")
    case True
    then show ?thesis by simp
  next
    case False
    with Cons.prems have nn: "0 \<le> findIndex P xs"
      by (simp add: Let_def split: if_splits)
    from Cons.IH [OF nn] False nn show ?thesis
      by (simp add: Let_def nat_add_distrib)
  qed
qed

lemma findIndex_missing: "findIndex P xs < 0 \<Longrightarrow> \<forall>x \<in> set xs. \<not> P x"
  by (induction xs) (auto simp: Let_def split: if_splits)

lemma findIndex_lower: "- 1 \<le> findIndex P xs"
  by (induction xs) (auto simp: Let_def)

lemma map_update_same_key:
  assumes "i < length xs" and "f (xs ! i) = f y"
  shows "map f (xs[i := y]) = map f xs"
  using assms by (simp add: map_update list_update_same_conv)

lemma saveOfflineNote_ids:
  "set (map note_id (offline_notes (saveOfflineNote n s))) =
     insert (note_id n) (set (map note_id (offline_notes s)))"
proof (cases "0 \<le> findIndex (\<lambda>m. note_id m = note_id n) (offline_notes s)")
  case True
  from findIndex_found [OF True]
  have lt: "nat (findIndex (\<lambda>m. note_id m = note_id n) (offline_notes s)) < length (offline_notes s)"
    and eq: "note_id (offline_notes s ! nat (findIndex (\<lambda>m. note_id m = note_id n) (offline_notes s))) = note_id n"
    by simp_all
  have "map note_id ((offline_notes s)[nat (findIndex (\<lambda>m. note_id m = note_id n) (offline_notes s)) := n])
          = map note_id (offline_notes s)"
    by (rule map_update_same_key [OF lt eq])
  moreover have "note_id n \<in> set (map note_id (offline_notes s))"
    using lt eq by (metis length_map nth_map nth_mem)
  ultimately show ?thesis
    using True by (auto simp: saveOfflineNote_def getOfflineNotes_def storeOfflineNotes_def Let_def simp del: set_map)
next
  case False
  then show ?thesis
    by (simp add: saveOfflineNote_def getOfflineNotes_def storeOfflineNotes_def Let_def)
qed

lemma saveOfflineNote_other:
  "offline_tags (saveOfflineNote n s) = offline_tags s"
  "offline_note_tags (saveOfflineNote n s) = offline_note_tags s"
  "last_sync (saveOfflineNote n s) = last_sync s"
  "cloudinary_notes (saveOfflineNote n s) = cloudinary_notes s"
  by (simp_all add: saveOfflineNote_def getOfflineNotes_def storeOfflineNotes_def Let_def)

lemma saveOfflineTag_ids:
  "set (map tag_id (offline_tags (saveOfflineTag t s))) =
     insert (tag_id t) (set (map tag_id (offline_tags s)))"
proof (cases "0 \<le> findIndex (\<lambda>u. tag_id u = tag_id t) (offline_tags s)")
  case True
  from findIndex_found [OF True]
  have lt: "nat (findIndex (\<lambda>u. tag_id u = tag_id t) (offline_tags s)) < length (offline_tags s)"
    and eq: "tag_id (offline_tags s ! nat (findIndex (\<lambda>u. tag_id u = tag_id t) (offline_tags s))) = tag_id t"
    by simp_all
  have "map tag_id ((offline_tags s)[nat (findIndex (\<lambda>u. tag_id u = tag_id t) (offline_tags s)) := t])
          = map tag_id (offline_tags s)"
    by (rule map_update_same_key [OF lt eq])
  moreover have "tag_id t \<in> set (map tag_id (offline_tags s))"
    using lt eq by (metis length_map nth_map nth_mem)
  ultimately show ?thesis
    using True by (auto simp: saveOfflineTag_def getOfflineTags_def storeOfflineTags_def Let_def simp del: set_map)
next
  case False
  then show ?thesis
    by (simp add: saveOfflineTag_def getOfflineTags_def storeOfflineTags_def Let_def)
qed

lemma saveOfflineTag_other:
  "offline_notes (saveOfflineTag t s) = offline_notes s"
  "offline_note_tags (saveOfflineTag t s) = offline_note_tags s"
  by (simp_all add: saveOfflineTag_def getOfflineTags_def storeOfflineTags_def Let_def)

lemma consistent_saveOfflineNote:
  "relations_consistent s \<Longrightarrow> relations_consistent (saveOfflineNote n s)"
  unfolding relations_consistent_def saveOfflineNote_ids saveOfflineNote_other
  by (auto simp: list_all_iff)

lemma consistent_saveOfflineTag:
  "relations_consistent s \<Longrightarrow> relations_consistent (saveOfflineTag t s)"
  unfolding relations_consistent_def saveOfflineTag_ids saveOfflineTag_other
  by (auto simp: list_all_iff)

lemma consistent_deleteOfflineNote:
  "relations_consistent s \<Longrightarrow> relations_consistent (deleteOfflineNote i s)"
  by (auto simp: relations_consistent_def deleteOfflineNote_def getOfflineNotes_def
      storeOfflineNotes_def getOfflineNoteTags_def storeOfflineNoteTags_def Let_def list_all_iff)

lemma consistent_deleteOfflineTag:
  "relations_consistent s \<Longrightarrow> relations_consistent (deleteOfflineTag i s)"
  by (auto simp: relations_consistent_def deleteOfflineTag_def getOfflineTags_def
      storeOfflineTags_def getOfflineNoteTags_def storeOfflineNoteTags_def Let_def list_all_iff)

lemma consistent_removeOfflineTagFromNote:
  "relations_consistent s \<Longrightarrow> relations_consistent (removeOfflineTagFromNote i t s)"
  by (auto simp: relations_consistent_def removeOfflineTagFromNote_def
      getOfflineNoteTags_def storeOfflineNoteTags_def Let_def list_all_iff)

lemma consistent_addOfflineTagToNote:
  "relations_consistent s \<Longrightarrow> i \<in> set (map note_id (offline_notes s)) \<Longrightarrow>
   t \<in> set (map tag_id (offline_tags s)) \<Longrightarrow> relations_consistent (addOfflineTagToNote i t s)"
  by (auto simp: relations_consistent_def addOfflineTagToNote_def
      getOfflineNoteTags_def storeOfflineNoteTags_def Let_def list_all_iff)


text \<open>
  C8, as stated, fails for \<open>addOfflineTagToNote\<close>, which appends the row without looking
  at the notes or the tags: on the empty store, adding the relation (1, 1) leaves a row
  that names a note and a tag that do not exist.
\<close>

theorem C8_addOfflineTagToNote_dangling:
  "relations_consistent empty_storage \<and>
   \<not> relations_consistent (addOfflineTagToNote 1 1 empty_storage)"
  by (simp add: relations_consistent_def empty_storage_def addOfflineTagToNote_def
      getOfflineNoteTags_def storeOfflineNoteTags_def)

text \<open>
  C8, amended: from a store without dangling relations, \<open>saveOfflineNote\<close>,
  \<open>deleteOfflineNote\<close>, \<open>saveOfflineTag\<close>, \<open>deleteOfflineTag\<close> and
  \<open>removeOfflineTagFromNote\<close> leave no dangling relation, and \<open>addOfflineTagToNote\<close>
  leaves none when the note id and the tag id it is given are present in the store
  (which is what the offline branch of \<open>useAddTagToNote\<close> checks before it calls).
\<close>

theorem C8_local_store_ops_keep_relations:
  assumes "relations_consistent s"
  shows "relations_consistent (saveOfflineNote n s) \<and>
         relations_consistent (deleteOfflineNote i s) \<and>
         relations_consistent (saveOfflineTag t s) \<and>
         relations_consistent (deleteOfflineTag j s) \<and>
         relations_consistent (removeOfflineTagFromNote i j s) \<and>
         (i \<in> set (map note_id (offline_notes s)) \<and> j \<in> set (map tag_id (offline_tags s))
            \<longrightarrow> relations_consistent (addOfflineTagToNote i j s))"
proof (intro conjI impI)
  show "relations_consistent (saveOfflineNote n s)"
    using assms by (rule consistent_saveOfflineNote)
  show "relations_consistent (deleteOfflineNote i s)"
    using assms by (rule consistent_deleteOfflineNote)
  show "relations_consistent (saveOfflineTag t s)"
    using assms by (rule consistent_saveOfflineTag)
  show "relations_consistent (deleteOfflineTag j s)"
    using assms by (rule consistent_deleteOfflineTag)
  show "relations_consistent (removeOfflineTagFromNote i j s)"
    using assms by (rule consistent_removeOfflineTagFromNote)
next
  assume present: "i \<in> set (map note_id (offline_notes s)) \<and> j \<in> set (map tag_id (offline_tags s))"
  from present have pi: "i \<in> set (map note_id (offline_notes s))" ..
  from present have pj: "j \<in> set (map tag_id (offline_tags s))" ..
  show "relations_consistent (addOfflineTagToNote i j s)"
    by (rule consistent_addOfflineTagToNote [OF assms pi pj])
qed

theorem C8_local_store_ops_keep_relations_witness:
  "relations_consistent sample_storage \<and>
   relations_consistent (saveOfflineNote sample_note sample_storage) \<and>
   relations_consistent (deleteOfflineNote 1 sample_storage) \<and>
   relations_consistent (saveOfflineTag sample_tag sample_storage) \<and>
   relations_consistent (deleteOfflineTag 1 sample_storage) \<and>
   relations_consistent (removeOfflineTagFromNote 1 1 sample_storage) \<and>
   1 \<in> set (map note_id (offline_notes sample_storage)) \<and>
   1 \<in> set (map tag_id (offline_tags sample_storage)) \<and>
   relations_consistent (addOfflineTagToNote 1 1 sample_storage)"
proof -
  have h: "relations_consistent sample_storage"
    by (simp add: relations_consistent_def sample_storage_def sample_note_def sample_tag_def)
  have ids: "1 \<in> set (map note_id (offline_notes sample_storage))"
    "1 \<in> set (map tag_id (offline_tags sample_storage))"
    by (simp_all add: sample_storage_def sample_note_def sample_tag_def)
  from C8_local_store_ops_keep_relations [OF h, of sample_note 1 sample_tag 1] h ids
  show ?thesis by blast
qed

section \<open>Server repository: identifiers and soft delete\<close>

lemma noteCurrentId_call: "noteCurrentId st \<le> noteCurrentId (call c st)"
  by (cases c)
    (simp_all add: createNote_def updateNote_def deleteNote_def restoreNote_def
      toggleFavorite_def createTag_def updateTag_def deleteTag_def addTagToNote_def
      removeTagFromNote_def Let_def split: option.split)

lemma noteCurrentId_calls: "noteCurrentId st \<le> noteCurrentId (calls cs st)"
  unfolding calls_def
proof (induction cs arbitrary: st)
  case Nil
  show ?case by simp
next
  case (Cons c cs)
  have "noteCurrentId st \<le> noteCurrentId (call c st)" by (rule noteCurrentId_call)
  also have "\<dots> \<le> noteCurrentId (fold call cs (call c st))" by (rule Cons.IH)
  finally show ?case by simp
qed

lemma noteCurrentId_new: "noteCurrentId new_MemStorage = 1"
  by (simp add: new_MemStorage_def createTag_def Let_def)

lemma createNote_id: "note_id (fst (createNote ins now st)) = noteCurrentId st"
  by (simp add: createNote_def Let_def)

lemma createNote_counter: "noteCurrentId (snd (createNote ins now st)) = noteCurrentId st + 1"
  by (simp add: createNote_def Let_def)

lemma tempId_nonpos: "0 \<le> rnd \<Longrightarrow> tempId rnd \<le> 0"
  by (simp add: tempId_def)

text \<open>
  C10: the first note of a repository gets id 1; after any sequence of calls, a note that
  \<open>createNote\<close> creates gets an id of at least 1 and the counter moves to that id plus
  one; any note created later in the same repository, whatever calls come in between,
  gets a strictly larger id, so no two \<open>createNote\<close> calls return the same id; and a
  server id is never a client placeholder id (\<open>tempId\<close> of a value of \<open>Math.random()\<close>,
  which is not negative).
\<close>

theorem C10_server_ids_positive_and_distinct:
  "note_id (fst (createNote ins0 t0 new_MemStorage)) = 1 \<and>
   1 \<le> note_id (fst (createNote ins1 t1 (calls cs1 new_MemStorage))) \<and>
   noteCurrentId (snd (createNote ins1 t1 (calls cs1 new_MemStorage)))
     = note_id (fst (createNote ins1 t1 (calls cs1 new_MemStorage))) + 1 \<and>
   note_id (fst (createNote ins1 t1 (calls cs1 new_MemStorage)))
     < note_id (fst (createNote ins2 t2
         (calls cs2 (snd (createNote ins1 t1 (calls cs1 new_MemStorage)))))) \<and>
   (0 \<le> rnd \<longrightarrow> note_id (fst (createNote ins1 t1 (calls cs1 new_MemStorage))) \<noteq> tempId rnd)"
proof -
  let ?st1 = "calls cs1 new_MemStorage"
  let ?st2 = "snd (createNote ins1 t1 ?st1)"
  let ?st3 = "calls cs2 ?st2"
  have one: "1 \<le> noteCurrentId ?st1"
    using noteCurrentId_calls [of new_MemStorage cs1] by (simp add: noteCurrentId_new)
  have "noteCurrentId ?st1 + 1 = noteCurrentId ?st2" by (simp add: createNote_counter)
  also have "\<dots> \<le> noteCurrentId ?st3" by (rule noteCurrentId_calls)
  finally have later: "noteCurrentId ?st1 < noteCurrentId ?st3" by simp
  have neg: "0 \<le> rnd \<longrightarrow> noteCurrentId ?st1 \<noteq> tempId rnd"
    using one tempId_nonpos [of rnd] by auto
  show ?thesis
    using one later neg by (simp add: createNote_id createNote_counter noteCurrentId_new)
qed

theorem C10_server_ids_positive_and_distinct_witness:
  "note_id (fst (createNote trip_insert 1000 new_MemStorage)) = 1 \<and>
   1 \<le> note_id (fst (createNote trip_insert 1000 (calls [] new_MemStorage))) \<and>
   noteCurrentId (snd (createNote trip_insert 1000 (calls [] new_MemStorage)))
     = note_id (fst (createNote trip_insert 1000 (calls [] new_MemStorage))) + 1 \<and>
   note_id (fst (createNote trip_insert 1000 (calls [] new_MemStorage)))
     < note_id (fst (createNote trip_insert 2000
         (calls [DeleteNote 1 1500] (snd (createNote trip_insert 1000 (calls [] new_MemStorage)))))) \<and>
   (0::real) \<le> 1 / 2 \<and>
   note_id (fst (createNote trip_insert 1000 (calls [] new_MemStorage))) \<noteq> tempId (1 / 2)"
  using C10_server_ids_positive_and_distinct
    [of trip_insert 1000 trip_insert 1000 "[]" trip_insert 2000 "[DeleteNote 1 1500]" "1 / 2"]
  by simp

lemma map_of_update_same: "map_of (AList.update k v al) k = Some v"
  by (simp add: update_conv')

text \<open>
  C7, as stated, fails on the time stamp: \<open>restoreNote\<close> writes the reading of the clock
  (\<open>new Date()\<close>, in milliseconds), and nothing makes that reading later than the one
  the note already carries. The note created at clock reading 1000, deleted and restored
  while the clock still reads 1000, comes back with the \<open>updatedAt\<close> it had: the round
  trip returns the pre-delete note itself, with no newer \<open>updatedAt\<close>.
\<close>

theorem C7_restore_at_same_clock_reading:
  "getNote 1 trip_server = Some trip_created \<and>
   fst (deleteNote 1 1000 trip_server) = True \<and>
   fst (restoreNote 1 1000 (snd (deleteNote 1 1000 trip_server))) = Some trip_created \<and>
   \<not> updatedAt trip_created
       < updatedAt (the (fst (restoreNote 1 1000 (snd (deleteNote 1 1000 trip_server)))))"
  by (simp add: getNote_def trip_server_def trip_created_def trip_insert_def createNote_def
      deleteNote_def restoreNote_def Let_def noteCurrentId_new map_of_update_same)

text \<open>
  C7, amended: for a note \<open>n\<close> that the repository holds under \<open>i\<close>, \<open>deleteNote\<close> at
  clock reading \<open>t1\<close> succeeds, and \<open>restoreNote\<close> at clock reading \<open>t2\<close> then returns,
  and stores, a note that equals \<open>n\<close> in every field except that \<open>isDeleted\<close> is false
  and \<open>updatedAt\<close> is \<open>t2\<close>, the reading of the clock taken by the restore; in
  particular id, title, content, favourite flag and creation time are unchanged.
  (Whether \<open>t2\<close> is newer than the former \<open>updatedAt\<close> is a matter of the clock.)
\<close>

theorem C7_delete_then_restore_fields:
  assumes present: "getNote i st = Some n"
  shows "fst (deleteNote i t1 st) = True \<and>
         fst (restoreNote i t2 (snd (deleteNote i t1 st)))
           = Some (n\<lparr>isDeleted := False, updatedAt := t2\<rparr>) \<and>
         getNote i (snd (restoreNote i t2 (snd (deleteNote i t1 st))))
           = Some (n\<lparr>isDeleted := False, updatedAt := t2\<rparr>) \<and>
         (\<exists>r. fst (restoreNote i t2 (snd (deleteNote i t1 st))) = Some r \<and>
              note_id r = note_id n \<and> title r = title n \<and> content r = content n \<and>
              isFavorite r = isFavorite n \<and> createdAt r = createdAt n \<and>
              tags r = tags n \<and> tagIds r = tagIds n \<and>
              \<not> isDeleted r \<and> updatedAt r = t2)"
proof -
  from present have m: "map_of (ms_notes st) i = Some n" by (simp add: getNote_def)
  have d: "deleteNote i t1 st
             = (True, st\<lparr>ms_notes := AList.update i (n\<lparr>isDeleted := True, updatedAt := t1\<rparr>) (ms_notes st)\<rparr>)"
    using m by (simp add: deleteNote_def Let_def)
  have r: "restoreNote i t2 (snd (deleteNote i t1 st))
             = (Some (n\<lparr>isDeleted := False, updatedAt := t2\<rparr>),
                (snd (deleteNote i t1 st))\<lparr>ms_notes :=
                   AList.update i (n\<lparr>isDeleted := False, updatedAt := t2\<rparr>)
                     (ms_notes (snd (deleteNote i t1 st)))\<rparr>)"
    by (simp add: d restoreNote_def Let_def map_of_update_same)
  show ?thesis
    by (simp add: r getNote_def map_of_update_same) (simp add: d)
qed

theorem C7_delete_then_restore_fields_witness:
  "getNote 1 trip_server = Some trip_created \<and>
   fst (deleteNote 1 2000 trip_server) = True \<and>
   fst (restoreNote 1 3000 (snd (deleteNote 1 2000 trip_server)))
     = Some (trip_created\<lparr>isDeleted := False, updatedAt := 3000\<rparr>) \<and>
   getNote 1 (snd (restoreNote 1 3000 (snd (deleteNote 1 2000 trip_server))))
     = Some (trip_created\<lparr>isDeleted := False, updatedAt := 3000\<rparr>) \<and>
   (\<exists>r. fst (restoreNote 1 3000 (snd (deleteNote 1 2000 trip_server))) = Some r \<and>
        note_id r = note_id trip_created \<and> title r = title trip_created \<and>
        content r = content trip_created \<and> isFavorite r = isFavorite trip_created \<and>
        createdAt r = createdAt trip_created \<and> tags r = tags trip_created \<and>
        tagIds r = tagIds trip_created \<and> \<not> isDeleted r \<and> updatedAt r = 3000)"
proof -
  have h: "getNote 1 trip_server = Some trip_created"
    by (simp add: getNote_def trip_server_def trip_created_def createNote_def Let_def
        noteCurrentId_new map_of_update_same)
  from h C7_delete_then_restore_fields [OF h, of 2000 3000] show ?thesis by (rule conjI)
qed

section \<open>Placeholder identifiers\<close>

text \<open>
  C9: what the code does where it departs from the claim. When \<open>Math.random()\<close> returns
  0 (and likewise for every value below one ten-millionth), the offline branch of
  \<open>useCreateNote\<close> saves and returns a note whose id is \<open>-Math.floor(0)\<close>, which is 0:
  not a strictly negative id.
\<close>

theorem C9_offline_create_id_zero:
  "\<exists>n. useCreateNote p u True r now 0 s = (Inr n, saveOfflineNote n s) \<and> note_id n = 0"
  by (simp add: useCreateNote_def tempId_def Let_def)

section \<open>Local search\<close>

text \<open>
  C4: what the code does where it departs from the claim. \<open>searchOfflineNotes\<close> neither
  trims the query nor looks at \<open>isDeleted\<close>: with the empty query it returns the note
  that is in the trash, and with a query of two spaces it returns nothing although the
  store holds a note that is not deleted.
\<close>

theorem C4_searchOfflineNotes_empty_and_blank_query:
  "isDeleted trashed_note \<and>
   searchOfflineNotes [] trash_storage = [trashed_note\<lparr>tags := Some [sample_tag]\<rparr>] \<and>
   \<not> isDeleted sample_note \<and>
   searchOfflineNotes ''  '' sample_storage = []"
  by code_simp

section \<open>Export\<close>

lemma htmlToMarkdown_pack_bags: "htmlToMarkdown ''<p>Pack bags</p>'' = Some ''Pack bags''"
  by code_simp

text \<open>
  C5: when the repository holds, under \<open>i\<close>, a note with title "Trip" and content
  "<p>Pack bags</p>", the export route answers a request for the markdown format with
  status 200 and exactly the body "# Trip", two line feeds, "Pack bags".
\<close>

theorem C5_export_trip_markdown:
  assumes "getNote i st = Some n" and "title n = ''Trip''" and "content n = ''<p>Pack bags</p>''"
  shows "\<exists>r. export_route i (Some ''markdown'') st = Some r \<and> status r = 200 \<and>
             body r = Text (''# Trip'' @ [CHR 0x0A, CHR 0x0A] @ ''Pack bags'')"
  using assms
  by (simp add: export_route_def getNoteWithTags_def getNote_def htmlToMarkdown_pack_bags)

theorem C5_export_trip_markdown_witness:
  "getNote 1 trip_server = Some trip_created \<and> title trip_created = ''Trip'' \<and>
   content trip_created = ''<p>Pack bags</p>'' \<and>
   (\<exists>r. export_route 1 (Some ''markdown'') trip_server = Some r \<and> status r = 200 \<and>
             body r = Text (''# Trip'' @ [CHR 0x0A, CHR 0x0A] @ ''Pack bags''))"
proof -
  have h: "getNote 1 trip_server = Some trip_created"
    by (simp add: getNote_def trip_server_def trip_created_def createNote_def Let_def
        noteCurrentId_new map_of_update_same)
  have t: "title trip_created = ''Trip''"
    by (simp add: trip_created_def createNote_def Let_def trip_insert_def)
  have c: "content trip_created = ''<p>Pack bags</p>''"
    by (simp add: trip_created_def createNote_def Let_def trip_insert_def)
  from h t c C5_export_trip_markdown [OF h t c] show ?thesis by (intro conjI)
qed

section \<open>Sync orchestrator: a create retried online\<close>

lemma saveOfflineNote_mem: "n \<in> set (offline_notes (saveOfflineNote n s))"
proof (cases "0 \<le> findIndex (\<lambda>m. note_id m = note_id n) (offline_notes s)")
  case True
  from findIndex_found [OF True]
  have "nat (findIndex (\<lambda>m. note_id m = note_id n) (offline_notes s)) < length (offline_notes s)"
    by simp
  then show ?thesis
    using True
    by (simp add: saveOfflineNote_def getOfflineNotes_def storeOfflineNotes_def Let_def set_update_memI)
next
  case False
  then show ?thesis
    by (simp add: saveOfflineNote_def getOfflineNotes_def storeOfflineNotes_def Let_def)
qed

lemma saveOfflineNote_keeps:
  assumes "m \<in> set (offline_notes s)" and "note_id m \<noteq> note_id n"
  shows "m \<in> set (offline_notes (saveOfflineNote n s))"
proof (cases "0 \<le> findIndex (\<lambda>m. note_id m = note_id n) (offline_notes s)")
  case True
  let ?k = "nat (findIndex (\<lambda>m. note_id m = note_id n) (offline_notes s))"
  from findIndex_found [OF True]
  have lt: "?k < length (offline_notes s)" and eq: "note_id (offline_notes s ! ?k) = note_id n"
    by simp_all
  from assms(1) obtain j where j: "j < length (offline_notes s)" "offline_notes s ! j = m"
    by (auto simp: in_set_conv_nth)
  with eq assms(2) have "j \<noteq> ?k" by auto
  with j have "(offline_notes s)[?k := n] ! j = m" by simp
  with j(1) have "m \<in> set ((offline_notes s)[?k := n])"
    by (metis length_list_update nth_mem)
  then show ?thesis
    using True
    by (simp add: saveOfflineNote_def getOfflineNotes_def storeOfflineNotes_def Let_def)
next
  case False
  with assms(1) show ?thesis
    by (simp add: saveOfflineNote_def getOfflineNotes_def storeOfflineNotes_def Let_def)
qed

lemma useCreateNote_online_notes:
  "offline_notes (snd (useCreateNote p u False (Inr c) now rnd s))
     = offline_notes (saveOfflineNote c s) \<and>
   fst (useCreateNote p u False (Inr c) now rnd s) = Inr c"
  by (simp add: useCreateNote_def Let_def setLastSyncTime_def saveUserNotes_def split: option.split)

text \<open>
  C2, as stated, fails: nothing removes the placeholder row. A note is created offline
  (\<open>Math.random()\<close> returns 0.5, so the placeholder id is -5000000); the same create is
  then retried online and the server answers with the note under id 1. The hook saves
  the answer under its own id; the Local Store then holds two rows, the placeholder and
  the server's.
\<close>

theorem C2_placeholder_row_remains:
  "useCreateNote trip_request None True (Inl NetworkUnreachable) 1000 (1 / 2) empty_storage
     = (Inr trip_placeholder, empty_storage\<lparr>offline_notes := [trip_placeholder]\<rparr>) \<and>
   useCreateNote trip_request None False (Inr trip_response) 2000 (1 / 2)
       (empty_storage\<lparr>offline_notes := [trip_placeholder]\<rparr>)
     = (Inr trip_response, empty_storage\<lparr>offline_notes := [trip_placeholder, trip_response]\<rparr>) \<and>
   note_id trip_placeholder = - 5000000 \<and> note_id trip_response = 1"
  by (simp add: useCreateNote_def tempId_def Let_def trip_request_def trip_placeholder_def
      trip_response_def trip_created_def trip_insert_def createNote_def noteCurrentId_new
      empty_storage_def saveOfflineNote_def getOfflineNotes_def storeOfflineNotes_def)

text \<open>
  C2, amended: if a note is created offline (with a placeholder id, which is not
  positive) and the same create intent is later retried successfully online, the server
  answering with a note of positive id, then afterwards the Local Store contains the
  server's record, and it still contains the placeholder record: the retry saves the
  server's record under its own id and removes nothing.
\<close>

theorem C2_retry_keeps_both_rows:
  assumes "0 \<le> rnd" and "1 \<le> note_id c"
  shows "\<exists>ph. useCreateNote p u True r1 t1 rnd s = (Inr ph, saveOfflineNote ph s) \<and>
           note_id ph \<le> 0 \<and>
           fst (useCreateNote p u False (Inr c) t2 rnd2 (saveOfflineNote ph s)) = Inr c \<and>
           c \<in> set (offline_notes (snd (useCreateNote p u False (Inr c) t2 rnd2 (saveOfflineNote ph s)))) \<and>
           ph \<in> set (offline_notes (snd (useCreateNote p u False (Inr c) t2 rnd2 (saveOfflineNote ph s))))"
proof -
  obtain ph where ph: "useCreateNote p u True r1 t1 rnd s = (Inr ph, saveOfflineNote ph s)"
    and idph: "note_id ph = tempId rnd"
    by (simp add: useCreateNote_def Let_def)
  from idph assms(1) have le: "note_id ph \<le> 0" by (simp add: tempId_nonpos)
  with assms(2) have ne: "note_id ph \<noteq> note_id c" by simp
  have in1: "ph \<in> set (offline_notes (saveOfflineNote ph s))" by (rule saveOfflineNote_mem)
  have keep: "ph \<in> set (offline_notes (saveOfflineNote c (saveOfflineNote ph s)))"
    by (rule saveOfflineNote_keeps [OF in1 ne])
  have new: "c \<in> set (offline_notes (saveOfflineNote c (saveOfflineNote ph s)))"
    by (rule saveOfflineNote_mem)
  show ?thesis
    using ph le keep new by (simp add: useCreateNote_online_notes)
qed

theorem C2_retry_keeps_both_rows_witness:
  "(0::real) \<le> 1 / 2 \<and> 1 \<le> note_id trip_response \<and>
   (\<exists>ph. useCreateNote trip_request None True (Inl NetworkUnreachable) 1000 (1 / 2) empty_storage
            = (Inr ph, saveOfflineNote ph empty_storage) \<and>
         note_id ph \<le> 0 \<and>
         fst (useCreateNote trip_request None False (Inr trip_response) 2000 (1 / 2)
                (saveOfflineNote ph empty_storage)) = Inr trip_response \<and>
         trip_response \<in> set (offline_notes (snd (useCreateNote trip_request None False
                (Inr trip_response) 2000 (1 / 2) (saveOfflineNote ph empty_storage)))) \<and>
         ph \<in> set (offline_notes (snd (useCreateNote trip_request None False
                (Inr trip_response) 2000 (1 / 2) (saveOfflineNote ph empty_storage)))))"
proof -
  have a: "(0::real) \<le> 1 / 2" by simp
  have b: "1 \<le> note_id trip_response"
    by (simp add: trip_response_def trip_created_def createNote_def Let_def noteCurrentId_new)
  from a b C2_retry_keeps_both_rows [OF a b, of trip_request None "Inl NetworkUnreachable" 1000 empty_storage 2000 "1 / 2"]
  show ?thesis by (intro conjI)
qed

section \<open>Sync orchestrator: failures of the Remote API\<close>

lemma getOfflineNoteWithTags_sample:
  "getOfflineNoteWithTags 1 sample_storage = Some (sample_note\<lparr>tags := Some [sample_tag]\<rparr>)"
  by code_simp

lemma getOfflineNoteWithTags_empty: "getOfflineNoteWithTags i empty_storage = None"
  by (simp add: getOfflineNoteWithTags_def getOfflineNotes_def empty_storage_def Let_def)

lemma useCreateNote_rejected:
  "\<not> isl (fst (useCreateNote p u False (Inl e) now rnd s)) \<and>
   useCreateNote p u False (Inl e) now rnd s = useCreateNote p u True r now rnd s"
  by (simp add: useCreateNote_def Let_def)

lemma useUpdateNote_rejected:
  "isl (fst (useUpdateNote i p u False (Inl e) now s)) = (getOfflineNoteWithTags i s = None) \<and>
   (isl (fst (useUpdateNote i p u False (Inl e) now s)) \<longrightarrow>
      snd (useUpdateNote i p u False (Inl e) now s) = s) \<and>
   snd (useUpdateNote i p u False (Inl e) now s) = snd (useUpdateNote i p u True r now s) \<and>
   (getOfflineNoteWithTags i s \<noteq> None \<longrightarrow>
      useUpdateNote i p u False (Inl e) now s = useUpdateNote i p u True r now s)"
  by (simp add: useUpdateNote_def Let_def split: option.split)

lemma useDeleteNote_rejected:
  "isl (fst (useDeleteNote i False (Inl e) now s)) = (getOfflineNoteWithTags i s = None) \<and>
   (isl (fst (useDeleteNote i False (Inl e) now s)) \<longrightarrow>
      snd (useDeleteNote i False (Inl e) now s) = s) \<and>
   snd (useDeleteNote i False (Inl e) now s) = snd (useDeleteNote i True r now s) \<and>
   (getOfflineNoteWithTags i s \<noteq> None \<longrightarrow>
      useDeleteNote i False (Inl e) now s = useDeleteNote i True r now s)"
  by (simp add: useDeleteNote_def Let_def split: option.split)

lemma useRestoreNote_rejected:
  "isl (fst (useRestoreNote i False (Inl e) now s)) = (getOfflineNoteWithTags i s = None) \<and>
   (isl (fst (useRestoreNote i False (Inl e) now s)) \<longrightarrow>
      snd (useRestoreNote i False (Inl e) now s) = s) \<and>
   snd (useRestoreNote i False (Inl e) now s) = snd (useRestoreNote i True r now s) \<and>
   (getOfflineNoteWithTags i s \<noteq> None \<longrightarrow>
      useRestoreNote i False (Inl e) now s = useRestoreNote i True r now s)"
  by (simp add: useRestoreNote_def Let_def split: option.split)

lemma useToggleFavorite_rejected:
  "isl (fst (useToggleFavorite i False (Inl e) now s)) = (getOfflineNoteWithTags i s = None) \<and>
   (isl (fst (useToggleFavorite i False (Inl e) now s)) \<longrightarrow>
      snd (useToggleFavorite i False (Inl e) now s) = s) \<and>
   snd (useToggleFavorite i False (Inl e) now s) = snd (useToggleFavorite i True r now s) \<and>
   (getOfflineNoteWithTags i s \<noteq> None \<longrightarrow>
      useToggleFavorite i False (Inl e) now s = useToggleFavorite i True r now s)"
  by (simp add: useToggleFavorite_def Let_def split: option.split)

lemma useAddTagToNote_rejected:
  "isl (fst (useAddTagToNote i j False (Inl e) s))
     = (getOfflineNoteWithTags i s = None \<or> find_js (\<lambda>t. tag_id t = j) (getOfflineTags s) = None) \<and>
   (isl (fst (useAddTagToNote i j False (Inl e) s)) \<longrightarrow>
      snd (useAddTagToNote i j False (Inl e) s) = s) \<and>
   useAddTagToNote i j False (Inl e) s = useAddTagToNote i j True r s"
  by (simp add: useAddTagToNote_def Let_def split: option.split)

lemma useRemoveTagFromNote_rejected:
  "isl (fst (useRemoveTagFromNote i j False (Inl e) s))
     = (getOfflineNoteWithTags i s = None \<or> find_js (\<lambda>t. tag_id t = j) (getOfflineTags s) = None) \<and>
   (isl (fst (useRemoveTagFromNote i j False (Inl e) s)) \<longrightarrow>
      snd (useRemoveTagFromNote i j False (Inl e) s) = s) \<and>
   useRemoveTagFromNote i j False (Inl e) s = useRemoveTagFromNote i j True r s"
  by (simp add: useRemoveTagFromNote_def Let_def split: option.split)









text \<open>
  C1, as stated, fails: the hooks catch every failure of the remote call alike. The
  Local Store holds note 1; an online update of its title is rejected by the Remote API
  with 404. \<open>useUpdateNote\<close> does not pass the error on: it returns the locally updated
  note and the Local Store is changed.
\<close>

theorem C1_rejected_update_applied_locally:
  "useUpdateNote 1 rename_request None False (Inl (ApplicationRejected 404 ''Note not found'')) 2000
       sample_storage
     = (Inr renamed_note, sample_storage\<lparr>offline_notes := [renamed_note]\<rparr>) \<and>
   offline_notes sample_storage \<noteq> [renamed_note]"
proof -
  have upd: "useUpdateNote 1 rename_request None False
               (Inl (ApplicationRejected 404 ''Note not found'')) 2000 sample_storage
             = (Inr renamed_note, saveOfflineNote renamed_note sample_storage)"
    by (simp add: useUpdateNote_def getOfflineNoteWithTags_sample Let_def spread_partial_note_def
        spread_InsertNote_def rename_request_def renamed_note_def sample_note_def)
  have sav: "saveOfflineNote renamed_note sample_storage
             = sample_storage\<lparr>offline_notes := [renamed_note]\<rparr>"
    by (simp add: saveOfflineNote_def getOfflineNotes_def storeOfflineNotes_def
        sample_storage_def renamed_note_def sample_note_def)
  have dif: "offline_notes sample_storage \<noteq> [renamed_note]"
    by (simp add: sample_storage_def renamed_note_def sample_note_def)
  from upd sav dif show ?thesis by simp
qed

text \<open>
  C1, amended: for every write intent executed while online, when the Remote API rejects
  the request with an application-class error, the hook does not pass that error on but
  falls back to the local mutation, and the Local Store ends as the offline execution
  of the same intent leaves it. The caller gets an error exactly when the target is
  missing from the Local Store (the note; for tag add/remove the note or the tag; never
  for create), and whenever the caller gets an error the Local Store is as it was.
\<close>

theorem C1_rejected_write_falls_back:
  "\<not> isl (fst (useCreateNote p u False (Inl (ApplicationRejected st msg)) now rnd s)) \<and>
   snd (useCreateNote p u False (Inl (ApplicationRejected st msg)) now rnd s)
     = snd (useCreateNote p u True r now rnd s) \<and>
   isl (fst (useUpdateNote i p u False (Inl (ApplicationRejected st msg)) now s))
     = (getOfflineNoteWithTags i s = None) \<and>
   (isl (fst (useUpdateNote i p u False (Inl (ApplicationRejected st msg)) now s)) \<longrightarrow>
      snd (useUpdateNote i p u False (Inl (ApplicationRejected st msg)) now s) = s) \<and>
   snd (useUpdateNote i p u False (Inl (ApplicationRejected st msg)) now s)
     = snd (useUpdateNote i p u True r now s) \<and>
   isl (fst (useDeleteNote i False (Inl (ApplicationRejected st msg)) now s))
     = (getOfflineNoteWithTags i s = None) \<and>
   (isl (fst (useDeleteNote i False (Inl (ApplicationRejected st msg)) now s)) \<longrightarrow>
      snd (useDeleteNote i False (Inl (ApplicationRejected st msg)) now s) = s) \<and>
   snd (useDeleteNote i False (Inl (ApplicationRejected st msg)) now s)
     = snd (useDeleteNote i True r now s) \<and>
   isl (fst (useRestoreNote i False (Inl (ApplicationRejected st msg)) now s))
     = (getOfflineNoteWithTags i s = None) \<and>
   (isl (fst (useRestoreNote i False (Inl (ApplicationRejected st msg)) now s)) \<longrightarrow>
      snd (useRestoreNote i False (Inl (ApplicationRejected st msg)) now s) = s) \<and>
   snd (useRestoreNote i False (Inl (ApplicationRejected st msg)) now s)
     = snd (useRestoreNote i True r now s) \<and>
   isl (fst (useToggleFavorite i False (Inl (ApplicationRejected st msg)) now s))
     = (getOfflineNoteWithTags i s = None) \<and>
   (isl (fst (useToggleFavorite i False (Inl (ApplicationRejected st msg)) now s)) \<longrightarrow>
      snd (useToggleFavorite i False (Inl (ApplicationRejected st msg)) now s) = s) \<and>
   snd (useToggleFavorite i False (Inl (ApplicationRejected st msg)) now s)
     = snd (useToggleFavorite i True r now s) \<and>
   isl (fst (useAddTagToNote i j False (Inl (ApplicationRejected st msg)) s))
     = (getOfflineNoteWithTags i s = None \<or> find_js (\<lambda>t. tag_id t = j) (getOfflineTags s) = None) \<and>
   (isl (fst (useAddTagToNote i j False (Inl (ApplicationRejected st msg)) s)) \<longrightarrow>
      snd (useAddTagToNote i j False (Inl (ApplicationRejected st msg)) s) = s) \<and>
   snd (useAddTagToNote i j False (Inl (ApplicationRejected st msg)) s)
     = snd (useAddTagToNote i j True rt s) \<and>
   isl (fst (useRemoveTagFromNote i j False (Inl (ApplicationRejected st msg)) s))
     = (getOfflineNoteWithTags i s = None \<or> find_js (\<lambda>t. tag_id t = j) (getOfflineTags s) = None) \<and>
   (isl (fst (useRemoveTagFromNote i j False (Inl (ApplicationRejected st msg)) s)) \<longrightarrow>
      snd (useRemoveTagFromNote i j False (Inl (ApplicationRejected st msg)) s) = s) \<and>
   snd (useRemoveTagFromNote i j False (Inl (ApplicationRejected st msg)) s)
     = snd (useRemoveTagFromNote i j True rt s)"
proof -
  note c = useCreateNote_rejected [of p u "ApplicationRejected st msg" now rnd s r]
  note up = useUpdateNote_rejected [of i p u "ApplicationRejected st msg" now s r]
  note de = useDeleteNote_rejected [of i "ApplicationRejected st msg" now s r]
  note re = useRestoreNote_rejected [of i "ApplicationRejected st msg" now s r]
  note tg = useToggleFavorite_rejected [of i "ApplicationRejected st msg" now s r]
  note ad = useAddTagToNote_rejected [of i j "ApplicationRejected st msg" s rt]
  note rm = useRemoveTagFromNote_rejected [of i j "ApplicationRejected st msg" s rt]
  have c2: "snd (useCreateNote p u False (Inl (ApplicationRejected st msg)) now rnd s)
     = snd (useCreateNote p u True r now rnd s)"
    using c by simp
  have ad2: "snd (useAddTagToNote i j False (Inl (ApplicationRejected st msg)) s)
     = snd (useAddTagToNote i j True rt s)"
    using ad by simp
  have rm2: "snd (useRemoveTagFromNote i j False (Inl (ApplicationRejected st msg)) s)
     = snd (useRemoveTagFromNote i j True rt s)"
    using rm by simp
  show ?thesis
    by (intro conjI)
      (rule c [THEN conjunct1] c2
        up [THEN conjunct1] up [THEN conjunct2, THEN conjunct1]
        up [THEN conjunct2, THEN conjunct2, THEN conjunct1]
        de [THEN conjunct1] de [THEN conjunct2, THEN conjunct1]
        de [THEN conjunct2, THEN conjunct2, THEN conjunct1]
        re [THEN conjunct1] re [THEN conjunct2, THEN conjunct1]
        re [THEN conjunct2, THEN conjunct2, THEN conjunct1]
        tg [THEN conjunct1] tg [THEN conjunct2, THEN conjunct1]
        tg [THEN conjunct2, THEN conjunct2, THEN conjunct1]
        ad [THEN conjunct1] ad [THEN conjunct2, THEN conjunct1] ad2
        rm [THEN conjunct1] rm [THEN conjunct2, THEN conjunct1] rm2)+
qed

theorem C1_rejected_write_falls_back_witness:
  "\<not> isl (fst (useCreateNote trip_request None False
              (Inl (ApplicationRejected 400 ''Validation error'')) 2000 (1 / 2) empty_storage)) \<and>
   getOfflineNoteWithTags 1 empty_storage = None \<and>
   isl (fst (useUpdateNote 1 trip_request None False
              (Inl (ApplicationRejected 400 ''Validation error'')) 2000 empty_storage)) \<and>
   snd (useUpdateNote 1 trip_request None False
              (Inl (ApplicationRejected 400 ''Validation error'')) 2000 empty_storage) = empty_storage \<and>
   isl (fst (useDeleteNote 1 False (Inl (ApplicationRejected 400 ''Validation error'')) 2000 empty_storage)) \<and>
   snd (useDeleteNote 1 False (Inl (ApplicationRejected 400 ''Validation error'')) 2000 empty_storage)
     = empty_storage \<and>
   isl (fst (useRestoreNote 1 False (Inl (ApplicationRejected 400 ''Validation error'')) 2000 empty_storage)) \<and>
   snd (useRestoreNote 1 False (Inl (ApplicationRejected 400 ''Validation error'')) 2000 empty_storage)
     = empty_storage \<and>
   isl (fst (useToggleFavorite 1 False (Inl (ApplicationRejected 400 ''Validation error'')) 2000 empty_storage)) \<and>
   snd (useToggleFavorite 1 False (Inl (ApplicationRejected 400 ''Validation error'')) 2000 empty_storage)
     = empty_storage \<and>
   isl (fst (useAddTagToNote 1 1 False (Inl (ApplicationRejected 400 ''Validation error'')) empty_storage)) \<and>
   snd (useAddTagToNote 1 1 False (Inl (ApplicationRejected 400 ''Validation error'')) empty_storage)
     = empty_storage \<and>
   isl (fst (useRemoveTagFromNote 1 1 False (Inl (ApplicationRejected 400 ''Validation error'')) empty_storage)) \<and>
   snd (useRemoveTagFromNote 1 1 False (Inl (ApplicationRejected 400 ''Validation error'')) empty_storage)
     = empty_storage"
proof -
  have g: "getOfflineNoteWithTags 1 empty_storage = None" by (rule getOfflineNoteWithTags_empty)
  note T = C1_rejected_write_falls_back [where p = trip_request and u = None and st = 400
      and msg = "''Validation error''" and now = 2000 and rnd = "1 / 2" and s = empty_storage
      and i = 1 and j = 1]
  from g T show ?thesis by simp
qed




section \<open>Export: offline and online\<close>



































end
